theory Spec2Isabelle
  imports Main "HOL-Library.Word" "HOL-Library.AList"
begin

text \<open>
  The chat page's script, \<^verbatim>\<open>chat.js\<close>: every handler is a function from the state of the
  page to the state it leaves, with the backend as a parameter that answers each request.
  A handler is followed from its start to its end: a request it awaits is answered, and no
  other handler runs in between. Where a claim speaks of what holds while a request is
  pending, the handler is cut at that \<^verbatim>\<open>await\<close> into the part before and the part after.
\<close>

section \<open>JavaScript strings\<close>

text \<open>
  A JavaScript string is a sequence of 16-bit code units. The regular expressions of
  \<^verbatim>\<open>escapeHtml\<close> (no \<^verbatim>\<open>u\<close> flag) and \<^verbatim>\<open>String.prototype.trim\<close> work on code units,
  so the model does too. \<open>lit\<close> turns an ASCII literal of the source into code units.
\<close>

type_synonym code_unit = "16 word"
type_synonym jsstring = "code_unit list"

definition lit :: "string \<Rightarrow> jsstring" where
  "lit cs = map (\<lambda>c. of_nat (of_char c)) cs"

text \<open>\<^verbatim>\<open>!x\<close> for a value that is a string or \<^verbatim>\<open>null\<close>: \<^verbatim>\<open>null\<close> and the empty string are falsy.\<close>

definition truthy :: "jsstring option \<Rightarrow> bool" where
  "truthy v = (case v of None \<Rightarrow> False | Some x \<Rightarrow> x \<noteq> [])"

text \<open>
  \<^verbatim>\<open>str.replace(/c/g, r)\<close> for a one-character pattern: every occurrence of the code unit
  is replaced, left to right; the replacement texts of the source contain no \<^verbatim>\<open>$\<close>.
\<close>

definition replaceAll :: "code_unit \<Rightarrow> jsstring \<Rightarrow> jsstring \<Rightarrow> jsstring" where
  "replaceAll c r str = concat (map (\<lambda>x. if x = c then r else [x]) str)"

text \<open>
  ECMAScript \<^verbatim>\<open>WhiteSpace\<close> and \<^verbatim>\<open>LineTerminator\<close> code points, all of them in the Basic
  Multilingual Plane and so one code unit each.
\<close>

definition is_white_space :: "code_unit \<Rightarrow> bool" where
  "is_white_space c \<longleftrightarrow> c \<in> set [0x09, 0x0A, 0x0B, 0x0C, 0x0D, 0x20, 0xA0, 0x1680,
     0x2000, 0x2001, 0x2002, 0x2003, 0x2004, 0x2005, 0x2006, 0x2007, 0x2008, 0x2009, 0x200A,
     0x2028, 0x2029, 0x202F, 0x205F, 0x3000, 0xFEFF]"

definition trim :: "jsstring \<Rightarrow> jsstring" where
  "trim str = rev (dropWhile is_white_space (rev (dropWhile is_white_space str)))"

text \<open>\<^verbatim>\<open>str.split("/")\<close>: the pieces between the separators, empty pieces included.\<close>

fun split :: "code_unit \<Rightarrow> jsstring \<Rightarrow> jsstring list" where
  "split d [] = [[]]"
| "split d (c # cs) =
     (if c = d then [] # split d cs
      else (case split d cs of [] \<Rightarrow> [[c]] | w # ws \<Rightarrow> (c # w) # ws))"


section \<open>Render/escape utility\<close>

text \<open>
  \<^verbatim>\<open>
  function escapeHtml(str) {
    return String(str)
      .replace(/&/g, "&amp;")
      .replace(/</g, "&lt;")
      .replace(/>/g, "&gt;")
      .replace(/"/g, "&quot;");
  }
  \<close>
  \<^verbatim>\<open>String(str)\<close> is the identity on strings.
\<close>

definition escapeHtml :: "jsstring \<Rightarrow> jsstring" where
  "escapeHtml str =
     replaceAll 0x22 (lit ''&quot;'')
       (replaceAll 0x3E (lit ''&gt;'')
         (replaceAll 0x3C (lit ''&lt;'')
           (replaceAll 0x26 (lit ''&amp;'') str)))"

text \<open>
  The specification's reading of escaping, character by character: each of the listed
  metacharacters stands for its entity, every other code unit for itself.
\<close>

definition html_entity :: "code_unit \<Rightarrow> jsstring" where
  "html_entity c =
     (if c = 0x26 then lit ''&amp;''
      else if c = 0x3C then lit ''&lt;''
      else if c = 0x3E then lit ''&gt;''
      else if c = 0x22 then lit ''&quot;''
      else [c])"

text \<open>
  What an HTML parser makes of the four entities in text and attribute values: the
  inverse reading, used to say that escaped text displays as the original text.
\<close>

function decode_entities :: "jsstring \<Rightarrow> jsstring" where
  "decode_entities [] = []"
| "decode_entities (c # cs) =
     (if c = 0x26 \<and> take 4 cs = lit ''amp;'' then 0x26 # decode_entities (drop 4 cs)
      else if c = 0x26 \<and> take 3 cs = lit ''lt;'' then 0x3C # decode_entities (drop 3 cs)
      else if c = 0x26 \<and> take 3 cs = lit ''gt;'' then 0x3E # decode_entities (drop 3 cs)
      else if c = 0x26 \<and> take 5 cs = lit ''quot;'' then 0x22 # decode_entities (drop 5 cs)
      else c # decode_entities cs)"
  by pat_completeness auto
termination
  by (relation "measure length") auto


section \<open>Data model\<close>

text \<open>
  Modelled from the spec: the bodies of the backend's responses (the backend itself is
  not among the sources), at the shapes of the REST contract the client consumes:
  \<^verbatim>\<open>{email, uid}\<close>, \<^verbatim>\<open>{id, title}\<close>, \<^verbatim>\<open>{id, title, messages: [{role, content}]}\<close>,
  \<^verbatim>\<open>{assistant}\<close>. A property that the client reads with a fallback may be absent, and
  is an option.
\<close>

datatype user = User (email: "jsstring option") (uid: "jsstring option")

datatype chat = Chat (chat_id: jsstring) (chat_title: jsstring)

datatype message = Msg (msg_role: jsstring) (msg_content: jsstring)

datatype chat_detail =
  ChatDetail (detail_id: jsstring) (detail_title: jsstring) (messages: "message list option")

datatype reply = Reply (assistant: jsstring)

text \<open>
  The body of a response as \<^verbatim>\<open>res.json()\<close> sees it: not JSON (the call throws), the
  JSON value \<^verbatim>\<open>null\<close>, or a value of the endpoint's shape.
\<close>

datatype 'a body = Malformed | JsonNull | Json 'a

text \<open>\<^verbatim>\<open>fetch\<close> rejects (network failure) or resolves to a response with a status code.\<close>

datatype 'a fetch_result = Rejected | Response nat "'a body"

datatype js_error = FetchFailed | BodyNotJson

text \<open>The object given to \<^verbatim>\<open>JSON.stringify\<close> for a request body.\<close>

datatype req_body = TitleBody jsstring | MessageBody jsstring

record fetch_opts =
  opt_method :: "jsstring option"
  opt_body :: "req_body option"
  opt_headers :: "(jsstring \<times> jsstring) list option"

record request =
  req_url :: jsstring
  req_method :: "jsstring option"
  req_body :: "req_body option"
  req_headers :: "(jsstring \<times> jsstring) list"
  req_credentials :: jsstring

text \<open>
  The backend, one function for each endpoint. Each sees every request issued so far,
  the current one last, so a backend may answer the same request differently over time.
\<close>

record backend =
  auth_me :: "request list \<Rightarrow> user fetch_result"
  list_chats :: "request list \<Rightarrow> chat list fetch_result"
  create_chat :: "request list \<Rightarrow> chat fetch_result"
  get_chat :: "request list \<Rightarrow> chat_detail fetch_result"
  delete_chat :: "request list \<Rightarrow> unit fetch_result"
  post_message :: "request list \<Rightarrow> reply fetch_result"

text \<open>
  Children of \<^verbatim>\<open>#chat-list\<close>: the \<^verbatim>\<open>empty-hint\<close> placeholder, or a \<^verbatim>\<open>chat-item\<close> with its
  \<^verbatim>\<open>dataset.id\<close>, whether its class list has \<^verbatim>\<open>active\<close>, and the three pieces of markup
  the template of \<^verbatim>\<open>renderChatList\<close> interpolates.
\<close>

datatype row =
  EmptyHint
  | ChatItem (dataset_id: jsstring) (has_active: bool)
      (title_attr: jsstring) (title_text: jsstring) (delete_data_id: jsstring)

text \<open>
  Children of \<^verbatim>\<open>#messages-panel\<close>. Each element has an identity, so that
  \<^verbatim>\<open>typingEl.remove()\<close> removes that element and no other.
\<close>

datatype node_kind =
  Message (role: jsstring) (bubble: jsstring)
  | Typing
  | EmptyChat
  | ErrorChat jsstring

type_synonym pnode = "nat \<times> node_kind"

record state =
  localStorage :: "(jsstring \<times> jsstring) list"
  activeChatId :: "jsstring option"
  pathname :: jsstring
  navigation :: "jsstring option"
  chat_list :: "row list"
  messages_panel :: "pnode list"
  next_node :: nat
  panel_scrollTop :: nat
  chat_input_area_display :: jsstring
  msg_input_value :: jsstring
  msg_input_focused :: bool
  auth_overlay_display :: jsstring
  user_email_text :: jsstring
  controls_wired :: bool
  requests :: "request list"
  console_errors :: "js_error list"

text \<open>
  \<open>pathname\<close> is the path of the document's URL, which \<^verbatim>\<open>history.pushState\<close> rewrites;
  \<open>navigation\<close> is the navigation that an assignment to \<^verbatim>\<open>window.location.href\<close> starts
  (the script keeps running, and the document's URL is not yet changed).
  \<open>panel_scrollTop\<close> counts in children of the panel; \<open>requests\<close> is every call of
  \<^verbatim>\<open>fetch\<close> so far.
\<close>

definition getItem :: "jsstring \<Rightarrow> state \<Rightarrow> jsstring option" where
  "getItem k s = map_of (localStorage s) k"


section \<open>Transport adapter\<close>

text \<open>
  The headers object: \<^verbatim>\<open>Content-Type\<close>, then the spread of the authorization header (when
  a token is stored), then the spread of \<^verbatim>\<open>opts.headers || {}\<close>; a later key overwrites.
\<close>

definition spread :: "(jsstring \<times> jsstring) list \<Rightarrow> (jsstring \<times> jsstring) list
    \<Rightarrow> (jsstring \<times> jsstring) list" where
  "spread src obj = fold (\<lambda>(k, v). AList.update k v) src obj"

definition request_headers :: "jsstring option \<Rightarrow> fetch_opts \<Rightarrow> (jsstring \<times> jsstring) list" where
  "request_headers token opts =
     spread (case opt_headers opts of None \<Rightarrow> [] | Some h \<Rightarrow> h)
       (spread (case token of
                  None \<Rightarrow> []
                | Some t \<Rightarrow> if t = [] then [] else [(lit ''Authorization'', lit ''Bearer '' @ t)])
          [(lit ''Content-Type'', lit ''application/json'')])"

text \<open>
  The \<^verbatim>\<open>try\<close> block of \<^verbatim>\<open>apiFetch\<close>: \<open>Inl\<close> is an exception thrown inside it, by \<^verbatim>\<open>fetch\<close>
  or by \<^verbatim>\<open>res.json()\<close>; \<open>Inr None\<close> is \<^verbatim>\<open>return null\<close>. \<^verbatim>\<open>res.ok\<close> is a status from 200
  to 299.
\<close>

definition apiFetch_try :: "(request list \<Rightarrow> 'a fetch_result) \<Rightarrow> request \<Rightarrow> state
    \<Rightarrow> (js_error + 'a option) \<times> state" where
  "apiFetch_try endpoint req s =
     (let s1 = s\<lparr>requests := requests s @ [req]\<rparr> in
      case endpoint (requests s1) of
        Rejected \<Rightarrow> (Inl FetchFailed, s1)
      | Response status b \<Rightarrow>
          if status = 401 then
            (Inr None, s1\<lparr>localStorage := [], navigation := Some (lit ''/'')\<rparr>)
          else if \<not> (200 \<le> status \<and> status \<le> 299) then (Inr None, s1)
          else (case b of
                  Malformed \<Rightarrow> (Inl BodyNotJson, s1)
                | JsonNull \<Rightarrow> (Inr None, s1)
                | Json v \<Rightarrow> (Inr (Some v), s1)))"

text \<open>
  The request \<^verbatim>\<open>apiFetch(path, opts)\<close> hands to \<^verbatim>\<open>fetch\<close>: the URL \<^verbatim>\<open>API + path\<close> with
  \<^verbatim>\<open>API = ""\<close>, and \<^verbatim>\<open>{...opts, headers, credentials: "include"}\<close>.
\<close>

definition api_request :: "jsstring \<Rightarrow> fetch_opts \<Rightarrow> state \<Rightarrow> request" where
  "api_request path opts s =
     (let token = getItem (lit ''fb_id_token'') s;
          headers = request_headers token opts
      in \<lparr>req_url = lit [] @ path, req_method = opt_method opts,
          req_body = opt_body opts, req_headers = headers,
          req_credentials = lit ''include''\<rparr>)"

text \<open>
  \<^verbatim>\<open>apiFetch(path, opts)\<close>: the \<^verbatim>\<open>catch\<close> clause logs the error and returns \<^verbatim>\<open>null\<close>.
\<close>

definition apiFetch :: "(request list \<Rightarrow> 'a fetch_result) \<Rightarrow> jsstring \<Rightarrow> fetch_opts \<Rightarrow> state
    \<Rightarrow> 'a option \<times> state" where
  "apiFetch endpoint path opts s =
     (case apiFetch_try endpoint (api_request path opts s) s of
        (Inl err, s') \<Rightarrow> (None, s'\<lparr>console_errors := console_errors s' @ [err]\<rparr>)
      | (Inr result, s') \<Rightarrow> (result, s'))"

text \<open>What the backend answers to that request, issued in the state \<open>s\<close>.\<close>

definition received :: "(request list \<Rightarrow> 'a fetch_result) \<Rightarrow> jsstring \<Rightarrow> fetch_opts \<Rightarrow> state
    \<Rightarrow> 'a fetch_result" where
  "received endpoint path opts s = endpoint (requests s @ [api_request path opts s])"

definition no_opts :: fetch_opts where
  "no_opts = \<lparr>opt_method = None, opt_body = None, opt_headers = None\<rparr>"


section \<open>Sidebar: chat list\<close>

text \<open>The \<^verbatim>\<open>li\<close> that the \<^verbatim>\<open>forEach\<close> callback of \<^verbatim>\<open>renderChatList\<close> builds for one chat.\<close>

definition chat_row :: "jsstring option \<Rightarrow> chat \<Rightarrow> row" where
  "chat_row active c =
     ChatItem (chat_id c) (Some (chat_id c) = active)
       (escapeHtml (chat_title c)) (escapeHtml (chat_title c)) (chat_id c)"

definition renderChatList :: "chat list \<Rightarrow> state \<Rightarrow> state" where
  "renderChatList chats s =
     (let s1 = s\<lparr>chat_list := []\<rparr> in
      if length chats = 0 then s1\<lparr>chat_list := [EmptyHint]\<rparr>
      else fold (\<lambda>c st. st\<lparr>chat_list := chat_list st @ [chat_row (activeChatId st) c]\<rparr>)
             chats s1)"

definition loadChatList :: "backend \<Rightarrow> state \<Rightarrow> state" where
  "loadChatList net s =
     (let (chats, s1) = apiFetch (list_chats net) (lit ''/api/chats'') no_opts s
      in renderChatList (case chats of None \<Rightarrow> [] | Some cs \<Rightarrow> cs) s1)"

text \<open>
  \<^verbatim>\<open>querySelectorAll(".chat-item").forEach(el => el.classList.toggle("active",
  el.dataset.id === id))\<close>; the placeholder row is no \<^verbatim>\<open>chat-item\<close>.
\<close>

fun toggle_active :: "jsstring option \<Rightarrow> row \<Rightarrow> row" where
  "toggle_active v EmptyHint = EmptyHint"
| "toggle_active v (ChatItem i a ta tt d) = ChatItem i (Some i = v) ta tt d"

definition highlight :: "jsstring option \<Rightarrow> state \<Rightarrow> state" where
  "highlight v s = s\<lparr>chat_list := map (toggle_active v) (chat_list s)\<rparr>"

fun is_active :: "row \<Rightarrow> bool" where
  "is_active EmptyHint = False"
| "is_active (ChatItem i a ta tt d) = a"

fun row_has_id :: "jsstring \<Rightarrow> row \<Rightarrow> bool" where
  "row_has_id v EmptyHint = False"
| "row_has_id v (ChatItem i a ta tt d) = (i = v)"


section \<open>Thread view\<close>

definition fresh_node :: "node_kind \<Rightarrow> state \<Rightarrow> pnode \<times> state" where
  "fresh_node k s = ((next_node s, k), s\<lparr>next_node := Suc (next_node s)\<rparr>)"

definition appendChild :: "pnode \<Rightarrow> state \<Rightarrow> state" where
  "appendChild el s = s\<lparr>messages_panel := messages_panel s @ [el]\<rparr>"

definition set_panel_innerHTML :: "node_kind list \<Rightarrow> state \<Rightarrow> state" where
  "set_panel_innerHTML ks s =
     s\<lparr>messages_panel := zip [next_node s ..< next_node s + length ks] ks,
       next_node := next_node s + length ks\<rparr>"

definition appendMessage :: "jsstring \<Rightarrow> jsstring \<Rightarrow> state \<Rightarrow> pnode \<times> state" where
  "appendMessage r content s =
     (let (el, s1) = fresh_node (Message r (escapeHtml content)) s
      in (el, appendChild el s1))"

definition appendTypingIndicator :: "state \<Rightarrow> pnode \<times> state" where
  "appendTypingIndicator s =
     (let (el, s1) = fresh_node Typing s in (el, appendChild el s1))"

definition remove :: "pnode \<Rightarrow> state \<Rightarrow> state" where
  "remove el s = s\<lparr>messages_panel := filter (\<lambda>n. fst n \<noteq> fst el) (messages_panel s)\<rparr>"

definition scrollToBottom :: "state \<Rightarrow> state" where
  "scrollToBottom s = s\<lparr>panel_scrollTop := length (messages_panel s)\<rparr>"

definition clearMainPanel :: "state \<Rightarrow> state" where
  "clearMainPanel s = (set_panel_innerHTML [EmptyChat] s)\<lparr>chat_input_area_display := lit ''none''\<rparr>"

definition showMainError :: "jsstring \<Rightarrow> state \<Rightarrow> state" where
  "showMainError msg s = set_panel_innerHTML [ErrorChat (escapeHtml msg)] s"

definition showNotLoggedIn :: "state \<Rightarrow> state" where
  "showNotLoggedIn s = s\<lparr>auth_overlay_display := lit ''flex''\<rparr>"

section \<open>Open / load chat\<close>

text \<open>
  \<^verbatim>\<open>history.pushState(null, "", url)\<close> rewrites the document's URL with what the browser's
  URL parser makes of \<open>url\<close>: the parser escapes some characters, cuts the path at
  \<^verbatim>\<open>?\<close> and \<^verbatim>\<open>#\<close>, and resolves dot segments. The parser is not part of the sources: it
  is the parameter \<open>url_path\<close>, from the URL to the pathname it gives. Only a plain path
  is known to come out as written, from every parser: a slash, not followed at once by a
  second one, and then nothing but ASCII letters, digits, \<^verbatim>\<open>-\<close>, \<^verbatim>\<open>_\<close>, \<^verbatim>\<open>~\<close> and slashes.
\<close>

definition url_plain :: "code_unit \<Rightarrow> bool" where
  "url_plain c \<longleftrightarrow>
     (0x41 \<le> c \<and> c \<le> 0x5A) \<or> (0x61 \<le> c \<and> c \<le> 0x7A) \<or> (0x30 \<le> c \<and> c \<le> 0x39)
     \<or> c = 0x2D \<or> c = 0x5F \<or> c = 0x7E"

definition plain_path :: "jsstring \<Rightarrow> bool" where
  "plain_path url \<longleftrightarrow>
     (case url of
        [] \<Rightarrow> False
      | c # cs \<Rightarrow>
          c = 0x2F \<and> (case cs of [] \<Rightarrow> True | d # _ \<Rightarrow> d \<noteq> 0x2F)
          \<and> list_all (\<lambda>x. url_plain x \<or> x = 0x2F) cs)"

definition pushState :: "(jsstring \<Rightarrow> jsstring) \<Rightarrow> jsstring \<Rightarrow> state \<Rightarrow> state" where
  "pushState url_path url s =
     s\<lparr>pathname := (if plain_path url then url else url_path url)\<rparr>"

text \<open>
  \<^verbatim>\<open>openChat(chatId)\<close> up to its \<^verbatim>\<open>await\<close>: the active identifier, the URL
  (\<^verbatim>\<open>history.pushState(null, "", `/c/${chatId}`)\<close>) and the highlight of the rows.
\<close>

definition openChat_begin :: "(jsstring \<Rightarrow> jsstring) \<Rightarrow> jsstring \<Rightarrow> state \<Rightarrow> state" where
  "openChat_begin url_path chatId s =
     (let s1 = s\<lparr>activeChatId := Some chatId\<rparr>;
          s2 = pushState url_path (lit ''/c/'' @ chatId) s1
      in highlight (Some chatId) s2)"

text \<open>The rest of \<^verbatim>\<open>openChat\<close> once the chat has been fetched.\<close>

definition openChat_render :: "chat_detail \<Rightarrow> state \<Rightarrow> state" where
  "openChat_render c s =
     (let s1 = s\<lparr>messages_panel := []\<rparr>;
          s2 = fold (\<lambda>m st. snd (appendMessage (msg_role m) (msg_content m) st))
                 (case messages c of None \<Rightarrow> [] | Some ms \<Rightarrow> ms) s1;
          s3 = s2\<lparr>chat_input_area_display := lit ''flex''\<rparr>;
          s4 = s3\<lparr>msg_input_focused := True\<rparr>
      in scrollToBottom s4)"

definition openChat :: "(jsstring \<Rightarrow> jsstring) \<Rightarrow> backend \<Rightarrow> jsstring \<Rightarrow> state \<Rightarrow> state" where
  "openChat url_path net chatId s =
     (let s1 = openChat_begin url_path chatId s;
          (c, s2) = apiFetch (get_chat net) (lit ''/api/chats/'' @ chatId) no_opts s1
      in case c of
           None \<Rightarrow> showMainError (lit ''Could not load this chat.'') s2
         | Some d \<Rightarrow> openChat_render d s2)"


section \<open>Create and delete chat\<close>

definition createNewChat :: "(jsstring \<Rightarrow> jsstring) \<Rightarrow> backend \<Rightarrow> state \<Rightarrow> state" where
  "createNewChat url_path net s =
     (let (c, s1) = apiFetch (create_chat net) (lit ''/api/chats'')
                      \<lparr>opt_method = Some (lit ''POST''),
                       opt_body = Some (TitleBody (lit ''New Chat'')), opt_headers = None\<rparr> s
      in case c of
           None \<Rightarrow> s1
         | Some ch \<Rightarrow> openChat url_path net (chat_id ch) (loadChatList net s1))"

text \<open>
  The synchronous block of \<^verbatim>\<open>deleteChat\<close> between its two \<^verbatim>\<open>await\<close>s:
  \<^verbatim>\<open>
  if (chatId === activeChatId) {
    activeChatId = null;
    clearMainPanel();
    history.pushState(null, "", "/c/");
  }
  \<close>
  The chat root \<^verbatim>\<open>/c/\<close> is a plain path, which \<^verbatim>\<open>pushState\<close> leaves as written.
\<close>

definition deleteChat_clear :: "jsstring \<Rightarrow> state \<Rightarrow> state" where
  "deleteChat_clear chatId s =
     (if Some chatId = activeChatId s then
        (let s1 = s\<lparr>activeChatId := None\<rparr>;
             s2 = clearMainPanel s1
         in s2\<lparr>pathname := lit ''/c/''\<rparr>)
      else s)"

text \<open>
  \<^verbatim>\<open>deleteChat(chatId)\<close>; \<open>confirmed\<close> is the user's answer to
  \<^verbatim>\<open>confirm("Delete this chat?")\<close>.
\<close>

definition deleteChat :: "backend \<Rightarrow> bool \<Rightarrow> jsstring \<Rightarrow> state \<Rightarrow> state" where
  "deleteChat net confirmed chatId s =
     (if \<not> confirmed then s
      else
        (let (result, s1) = apiFetch (delete_chat net) (lit ''/api/chats/'' @ chatId)
                              \<lparr>opt_method = Some (lit ''DELETE''), opt_body = None,
                               opt_headers = None\<rparr> s
         in if result = None then s1
            else loadChatList net (deleteChat_clear chatId s1)))"


section \<open>Messaging\<close>

text \<open>The text of the error bubble, \<^verbatim>\<open>" Error: could not get a reply."\<close> after the warning sign U+26A0.\<close>

definition error_text :: jsstring where
  "error_text = 0x26A0 # lit '' Error: could not get a reply.''"

text \<open>
  \<^verbatim>\<open>sendMessage()\<close> up to its first \<^verbatim>\<open>await\<close>: \<open>None\<close> is one of the two early returns;
  otherwise the active identifier, the trimmed message and the typing element, with the
  state in which the request is issued.
\<close>

definition sendMessage_begin :: "state \<Rightarrow> (jsstring \<times> jsstring \<times> pnode \<times> state) option" where
  "sendMessage_begin s =
     (if \<not> truthy (activeChatId s) then None
      else
        (let message = trim (msg_input_value s) in
         if message = [] then None
         else
           (let s1 = snd (appendMessage (lit ''user'') message s);
                s2 = s1\<lparr>msg_input_value := []\<rparr>;
                s3 = scrollToBottom s2;
                (typingEl, s4) = appendTypingIndicator s3
            in Some (the (activeChatId s4), message, typingEl, s4))))"

text \<open>The rest of \<^verbatim>\<open>sendMessage\<close> once \<^verbatim>\<open>apiFetch\<close> has returned \<open>result\<close>.\<close>

definition sendMessage_finish :: "backend \<Rightarrow> pnode \<Rightarrow> reply option \<Rightarrow> state \<Rightarrow> state" where
  "sendMessage_finish net typingEl result s =
     (let s1 = remove typingEl s;
          s2 = (case result of
                  None \<Rightarrow> snd (appendMessage (lit ''assistant'') error_text s1)
                | Some r \<Rightarrow>
                    (let s3 = snd (appendMessage (lit ''assistant'') (assistant r) s1);
                         s4 = loadChatList net s3
                     in highlight (activeChatId s4) s4))
      in scrollToBottom s2)"

definition sendMessage :: "backend \<Rightarrow> state \<Rightarrow> state" where
  "sendMessage net s =
     (case sendMessage_begin s of
        None \<Rightarrow> s
      | Some (chatId, message, typingEl, s1) \<Rightarrow>
          (let (result, s2) = apiFetch (post_message net)
                                (lit ''/api/chats/'' @ chatId @ lit ''/messages'')
                                \<lparr>opt_method = Some (lit ''POST''),
                                 opt_body = Some (MessageBody message), opt_headers = None\<rparr> s1
           in sendMessage_finish net typingEl result s2))"


section \<open>Bootstrap on page load\<close>

text \<open>\<^verbatim>\<open>me.email || me.uid\<close> as \<^verbatim>\<open>textContent\<close>: an absent property is \<^verbatim>\<open>undefined\<close>, which
  is falsy as a left operand and the empty text as a \<^verbatim>\<open>textContent\<close>.\<close>

definition email_or_uid :: "user \<Rightarrow> jsstring" where
  "email_or_uid me =
     (if truthy (email me) then the (email me)
      else (case uid me of None \<Rightarrow> [] | Some u \<Rightarrow> u))"

text \<open>\<^verbatim>\<open>window.location.pathname.split("/").filter(Boolean)\<close>\<close>

definition pathParts :: "state \<Rightarrow> jsstring list" where
  "pathParts s = filter (\<lambda>p. p \<noteq> []) (split 0x2F (pathname s))"

text \<open>The handler of \<^verbatim>\<open>DOMContentLoaded\<close>.\<close>

definition onDOMContentLoaded :: "(jsstring \<Rightarrow> jsstring) \<Rightarrow> backend \<Rightarrow> state \<Rightarrow> state" where
  "onDOMContentLoaded url_path net s =
     (let token = getItem (lit ''fb_id_token'') s in
      if \<not> truthy token then showNotLoggedIn s
      else
        (let (me, s1) = apiFetch (auth_me net) (lit ''/api/auth/me'') no_opts s in
         case me of
           None \<Rightarrow> showNotLoggedIn s1
         | Some u \<Rightarrow>
             (let s2 = s1\<lparr>user_email_text := email_or_uid u\<rparr>;
                  s3 = s2\<lparr>controls_wired := True\<rparr>;
                  s4 = loadChatList net s3;
                  parts = pathParts s4
              in if length parts = 2 \<and> parts ! 0 = lit ''c''
                 then openChat url_path net (parts ! 1) s4
                 else s4)))"

text \<open>
  The specification's reading of a location: the segments of its path are exactly the
  chat root and one identifier.
\<close>

definition encodes_chat :: "jsstring \<Rightarrow> jsstring \<Rightarrow> bool" where
  "encodes_chat path ident \<longleftrightarrow> filter (\<lambda>p. p \<noteq> []) (split 0x2F path) = [lit ''c'', ident]"

text \<open>Every element of the thread is older than the next one to be created.\<close>

definition nodes_fresh :: "state \<Rightarrow> bool" where
  "nodes_fresh s \<longleftrightarrow> (\<forall>n \<in> set (messages_panel s). fst n < next_node s)"

definition typing_nodes :: "state \<Rightarrow> pnode list" where
  "typing_nodes s = filter (\<lambda>n. snd n = Typing) (messages_panel s)"

text \<open>A page as the server delivers it: nothing rendered yet, no request made.\<close>

definition initial_page :: "(jsstring \<times> jsstring) list \<Rightarrow> jsstring \<Rightarrow> state" where
  "initial_page storage path =
     \<lparr>localStorage = storage, activeChatId = None, pathname = path, navigation = None,
      chat_list = [], messages_panel = [], next_node = 0, panel_scrollTop = 0,
      chat_input_area_display = [], msg_input_value = [], msg_input_focused = False,
      auth_overlay_display = [], user_email_text = [], controls_wired = False,
      requests = [], console_errors = []\<rparr>"

section \<open>Example backends and pages\<close>

text \<open>A backend that answers every request with the same status and a \<^verbatim>\<open>null\<close> body.\<close>

definition status_backend :: "nat \<Rightarrow> backend" where
  "status_backend st =
     \<lparr>auth_me = (\<lambda>_. Response st JsonNull), list_chats = (\<lambda>_. Response st JsonNull),
      create_chat = (\<lambda>_. Response st JsonNull), get_chat = (\<lambda>_. Response st JsonNull),
      delete_chat = (\<lambda>_. Response st JsonNull), post_message = (\<lambda>_. Response st JsonNull)\<rparr>"

text \<open>A backend with one chat \<^verbatim>\<open>abc\<close>, which answers every request with success.\<close>

definition demo_backend :: backend where
  "demo_backend =
     \<lparr>auth_me = (\<lambda>_. Response 200 (Json (User (Some (lit ''a@b.c'')) (Some (lit ''u1''))))),
      list_chats = (\<lambda>_. Response 200 (Json [Chat (lit ''abc'') (lit ''New Chat'')])),
      create_chat = (\<lambda>_. Response 201 (Json (Chat (lit ''abc'') (lit ''New Chat'')))),
      get_chat = (\<lambda>_. Response 200 (Json (ChatDetail (lit ''abc'') (lit ''New Chat'')
                   (Some [Msg (lit ''user'') (lit ''hi''), Msg (lit ''assistant'') (lit ''hello'')])))),
      delete_chat = (\<lambda>_. Response 200 (Json ())),
      post_message = (\<lambda>_. Response 200 (Json (Reply (lit ''hello''))))\<rparr>"

text \<open>The same backend while its list of chats is out of order (status 500).\<close>

definition list_down_backend :: backend where
  "list_down_backend = demo_backend\<lparr>list_chats := (\<lambda>_. Response 500 JsonNull)\<rparr>"

text \<open>The same backend when the model's reply is the very text of the error bubble.\<close>

definition error_echo_backend :: backend where
  "error_echo_backend = demo_backend\<lparr>post_message := (\<lambda>_. Response 200 (Json (Reply error_text)))\<rparr>"

text \<open>
  A stand-in for the browser's URL parser on the example pages: their paths are plain, so
  it is never asked.
\<close>

definition as_written :: "jsstring \<Rightarrow> jsstring" where
  "as_written url = url"

text \<open>A page whose local storage holds a token.\<close>

definition logged_in_page :: "jsstring \<Rightarrow> state" where
  "logged_in_page path = initial_page [(lit ''fb_id_token'', lit ''tok'')] path"

text \<open>That page with the chat \<^verbatim>\<open>abc\<close> open and a text in the input.\<close>

definition composing_page :: "jsstring \<Rightarrow> state" where
  "composing_page text =
     (logged_in_page (lit ''/c/abc''))\<lparr>activeChatId := Some (lit ''abc''), msg_input_value := text\<rparr>"


section \<open>Escaping\<close>

lemma replaceAll_Nil: "replaceAll c r [] = []" by (simp add: replaceAll_def)
lemma replaceAll_Cons: "replaceAll c r (x # xs) = (if x = c then r else [x]) @ replaceAll c r xs"
  by (simp add: replaceAll_def)
lemma replaceAll_append: "replaceAll c r (xs @ ys) = replaceAll c r xs @ replaceAll c r ys"
  by (simp add: replaceAll_def)

lemma escapeHtml_Nil: "escapeHtml [] = []" by (simp add: escapeHtml_def replaceAll_Nil)

lemma escapeHtml_Cons: "escapeHtml (x # xs) = html_entity x @ escapeHtml xs"
  by (simp add: escapeHtml_def html_entity_def replaceAll_Cons replaceAll_append replaceAll_Nil lit_def)

lemma escapeHtml_concat: "escapeHtml str = concat (map html_entity str)"
  by (induction str) (simp_all add: escapeHtml_Nil escapeHtml_Cons)

lemma html_entity_safe: "c \<in> set (html_entity x) \<Longrightarrow> c \<noteq> 0x3C \<and> c \<noteq> 0x3E \<and> c \<noteq> 0x22"
  by (auto simp: html_entity_def lit_def split: if_splits)

lemma escapeHtml_safe: "c \<in> set (escapeHtml str) \<Longrightarrow> c \<noteq> 0x3C \<and> c \<noteq> 0x3E \<and> c \<noteq> 0x22"
  unfolding escapeHtml_concat using html_entity_safe by auto

lemma decode_html_entity: "decode_entities (html_entity x @ rest) = x # decode_entities rest"
  by (simp add: html_entity_def lit_def)

lemma decode_escapeHtml: "decode_entities (escapeHtml str) = str"
  by (induction str) (simp_all add: escapeHtml_Nil escapeHtml_Cons decode_html_entity)

lemma fold_rows:
  "fold (\<lambda>c st. st\<lparr>chat_list := chat_list st @ [chat_row (activeChatId st) c]\<rparr>) chats s
   = s\<lparr>chat_list := chat_list s @ map (chat_row (activeChatId s)) chats\<rparr>"
  by (induction chats arbitrary: s) simp_all

lemma renderChatList_eq:
  "renderChatList chats s =
     s\<lparr>chat_list := (if chats = [] then [EmptyHint] else map (chat_row (activeChatId s)) chats)\<rparr>"
  by (simp add: renderChatList_def fold_rows)

lemma appendMessage_panel:
  "messages_panel (snd (appendMessage r str s)) = messages_panel s @ [(next_node s, Message r (escapeHtml str))]"
  by (simp add: appendMessage_def fresh_node_def appendChild_def)


lemma apiFetch_try_cases:
  "apiFetch_try endpoint req s =
     (case endpoint (requests s @ [req]) of
        Rejected \<Rightarrow> (Inl FetchFailed, s\<lparr>requests := requests s @ [req]\<rparr>)
      | Response status b \<Rightarrow>
          if status = 401 then
            (Inr None, s\<lparr>requests := requests s @ [req], localStorage := [], navigation := Some (lit ''/'')\<rparr>)
          else if status < 200 \<or> 299 < status then (Inr None, s\<lparr>requests := requests s @ [req]\<rparr>)
          else (case b of
                  Malformed \<Rightarrow> (Inl BodyNotJson, s\<lparr>requests := requests s @ [req]\<rparr>)
                | JsonNull \<Rightarrow> (Inr None, s\<lparr>requests := requests s @ [req]\<rparr>)
                | Json v \<Rightarrow> (Inr (Some v), s\<lparr>requests := requests s @ [req]\<rparr>)))"
  by (auto simp: apiFetch_try_def Let_def split: fetch_result.splits body.splits)

lemma apiFetch_cases:
  "apiFetch endpoint path opts s =
     (let req = api_request path opts s; s1 = s\<lparr>requests := requests s @ [req]\<rparr> in
      case received endpoint path opts s of
        Rejected \<Rightarrow> (None, s1\<lparr>console_errors := console_errors s @ [FetchFailed]\<rparr>)
      | Response status b \<Rightarrow>
          if status = 401 then (None, s1\<lparr>localStorage := [], navigation := Some (lit ''/'')\<rparr>)
          else if status < 200 \<or> 299 < status then (None, s1)
          else (case b of
                  Malformed \<Rightarrow> (None, s1\<lparr>console_errors := console_errors s @ [BodyNotJson]\<rparr>)
                | JsonNull \<Rightarrow> (None, s1)
                | Json v \<Rightarrow> (Some v, s1)))"
  by (auto simp: apiFetch_def apiFetch_try_cases received_def Let_def split: fetch_result.splits body.splits)



section \<open>Frames and helper facts\<close>

lemma apiFetch_frame:
  "activeChatId (snd (apiFetch e p opts s)) = activeChatId s"
  "pathname (snd (apiFetch e p opts s)) = pathname s"
  "chat_list (snd (apiFetch e p opts s)) = chat_list s"
  "messages_panel (snd (apiFetch e p opts s)) = messages_panel s"
  "next_node (snd (apiFetch e p opts s)) = next_node s"
  "requests (snd (apiFetch e p opts s)) = requests s @ [api_request p opts s]"
  by (simp_all add: apiFetch_cases Let_def split: fetch_result.splits body.splits)

lemma renderChatList_frame:
  "activeChatId (renderChatList cs s) = activeChatId s"
  "pathname (renderChatList cs s) = pathname s"
  "messages_panel (renderChatList cs s) = messages_panel s"
  "next_node (renderChatList cs s) = next_node s"
  "requests (renderChatList cs s) = requests s"
  by (simp_all add: renderChatList_eq)

lemma loadChatList_frame:
  "activeChatId (loadChatList net s) = activeChatId s"
  "pathname (loadChatList net s) = pathname s"
  "messages_panel (loadChatList net s) = messages_panel s"
  "next_node (loadChatList net s) = next_node s"
  "requests (loadChatList net s) = requests s @ [api_request (lit ''/api/chats'') no_opts s]"
  by (simp_all add: loadChatList_def case_prod_unfold Let_def renderChatList_frame apiFetch_frame)

lemma trim_empty_iff: "trim v = [] \<longleftrightarrow> (\<forall>c \<in> set v. is_white_space c)"
proof
  assume "trim v = []"
  then have a: "\<forall>c \<in> set (dropWhile is_white_space v). is_white_space c"
    by (simp add: trim_def)
  show "\<forall>c \<in> set v. is_white_space c"
  proof (cases "dropWhile is_white_space v")
    case Nil
    then show ?thesis by simp
  next
    case (Cons x xs)
    then have "\<not> is_white_space x" using hd_dropWhile [of is_white_space v] by simp
    with a Cons show ?thesis by simp
  qed
next
  assume "\<forall>c \<in> set v. is_white_space c"
  then show "trim v = []" by (auto simp: trim_def dest: set_dropWhileD)
qed

lemma sendMessage_begin_eq:
  assumes "activeChatId s = Some chatId" and "chatId \<noteq> []" and "trim (msg_input_value s) \<noteq> []"
  shows "sendMessage_begin s =
     Some (chatId, trim (msg_input_value s), (Suc (next_node s), Typing),
       s\<lparr>messages_panel := messages_panel s @
            [(next_node s, Message (lit ''user'') (escapeHtml (trim (msg_input_value s)))),
             (Suc (next_node s), Typing)],
         next_node := Suc (Suc (next_node s)),
         msg_input_value := [],
         panel_scrollTop := Suc (length (messages_panel s))\<rparr>)"
  using assms
  by (simp add: sendMessage_begin_def truthy_def Let_def appendMessage_def fresh_node_def
      appendChild_def scrollToBottom_def appendTypingIndicator_def)

lemma highlight_frame:
  "messages_panel (highlight v s) = messages_panel s"
  "activeChatId (highlight v s) = activeChatId s"
  "pathname (highlight v s) = pathname s"
  "requests (highlight v s) = requests s"
  "next_node (highlight v s) = next_node s"
  by (simp_all add: highlight_def)

lemma sendMessage_finish_panel:
  "messages_panel (sendMessage_finish net el result s) =
     filter (\<lambda>n. fst n \<noteq> fst el) (messages_panel s) @
       [(next_node s, Message (lit ''assistant'')
           (escapeHtml (case result of None \<Rightarrow> error_text | Some r \<Rightarrow> assistant r)))]"
  by (cases result)
    (simp_all add: sendMessage_finish_def Let_def scrollToBottom_def remove_def appendMessage_def
      fresh_node_def appendChild_def highlight_frame loadChatList_frame)

lemma filter_fresh:
  assumes "nodes_fresh s"
  shows "filter (\<lambda>n. fst n \<noteq> Suc (next_node s)) (messages_panel s) = messages_panel s"
    and "filter (\<lambda>n. fst n \<noteq> next_node s) (messages_panel s) = messages_panel s"
  using assms by (auto simp: nodes_fresh_def filter_id_conv)

lemma toggle_active_is_active: "is_active (toggle_active (Some c) r) = row_has_id c r"
  by (cases r) simp_all

lemma row_has_id_toggle: "row_has_id c (toggle_active v r) = row_has_id c r"
  by (cases r) simp_all

lemma openChat_begin_eq:
  "activeChatId (openChat_begin p c s) = Some c"
  "pathname (openChat_begin p c s) =
     (if plain_path (lit ''/c/'' @ c) then lit ''/c/'' @ c else p (lit ''/c/'' @ c))"
  "chat_list (openChat_begin p c s) = map (toggle_active (Some c)) (chat_list s)"
  "requests (openChat_begin p c s) = requests s"
  "messages_panel (openChat_begin p c s) = messages_panel s"
  by (simp_all add: openChat_begin_def highlight_def pushState_def Let_def)

lemma appendMessage_frame:
  "activeChatId (snd (appendMessage r c s)) = activeChatId s"
  "pathname (snd (appendMessage r c s)) = pathname s"
  "chat_list (snd (appendMessage r c s)) = chat_list s"
  "requests (snd (appendMessage r c s)) = requests s"
  by (simp_all add: appendMessage_def fresh_node_def appendChild_def)

lemma fold_appendMessage_frame:
  "activeChatId (fold (\<lambda>m st. snd (appendMessage (msg_role m) (msg_content m) st)) ms s) = activeChatId s
   \<and> pathname (fold (\<lambda>m st. snd (appendMessage (msg_role m) (msg_content m) st)) ms s) = pathname s
   \<and> chat_list (fold (\<lambda>m st. snd (appendMessage (msg_role m) (msg_content m) st)) ms s) = chat_list s
   \<and> requests (fold (\<lambda>m st. snd (appendMessage (msg_role m) (msg_content m) st)) ms s) = requests s"
  by (induction ms arbitrary: s) (simp_all add: appendMessage_frame)

lemma openChat_render_frame:
  "activeChatId (openChat_render d s) = activeChatId s"
  "pathname (openChat_render d s) = pathname s"
  "chat_list (openChat_render d s) = chat_list s"
  "requests (openChat_render d s) = requests s"
  by (simp_all add: openChat_render_def Let_def scrollToBottom_def fold_appendMessage_frame)

lemma showMainError_frame:
  "activeChatId (showMainError m s) = activeChatId s"
  "pathname (showMainError m s) = pathname s"
  "chat_list (showMainError m s) = chat_list s"
  "requests (showMainError m s) = requests s"
  by (simp_all add: showMainError_def set_panel_innerHTML_def)

lemma openChat_frame:
  "activeChatId (openChat p net c s) = Some c"
  "pathname (openChat p net c s) =
     (if plain_path (lit ''/c/'' @ c) then lit ''/c/'' @ c else p (lit ''/c/'' @ c))"
  "chat_list (openChat p net c s) = map (toggle_active (Some c)) (chat_list s)"
  by (simp_all add: openChat_def Let_def case_prod_unfold openChat_render_frame showMainError_frame
      apiFetch_frame openChat_begin_eq split: option.splits)

lemma length_filter_toggle:
  "length (filter is_active (map (toggle_active (Some c)) rows)) = length (filter (row_has_id c) rows)"
  by (induction rows) (simp_all add: toggle_active_is_active)


lemma clearMainPanel_eq:
  "clearMainPanel s = s\<lparr>messages_panel := [(next_node s, EmptyChat)], next_node := Suc (next_node s),
      chat_input_area_display := lit ''none''\<rparr>"
  by (simp add: clearMainPanel_def set_panel_innerHTML_def)

lemma deleteChat_clear_active:
  "activeChatId s = Some c \<Longrightarrow>
   deleteChat_clear c s = s\<lparr>activeChatId := None, messages_panel := [(next_node s, EmptyChat)],
      next_node := Suc (next_node s), chat_input_area_display := lit ''none'',
      pathname := lit ''/c/''\<rparr>"
  by (simp add: deleteChat_clear_def clearMainPanel_eq Let_def)

lemma deleteChat_clear_other: "activeChatId s \<noteq> Some c \<Longrightarrow> deleteChat_clear c s = s"
  by (auto simp: deleteChat_clear_def)

lemma deleteChat_clear_requests: "requests (deleteChat_clear c s) = requests s"
  by (simp add: deleteChat_clear_def clearMainPanel_eq Let_def)

lemma onDOMContentLoaded_no_token:
  "\<not> truthy (getItem (lit ''fb_id_token'') s) \<Longrightarrow> onDOMContentLoaded p net s = showNotLoggedIn s"
  by (simp add: onDOMContentLoaded_def Let_def)

lemma onDOMContentLoaded_no_identity:
  assumes "truthy (getItem (lit ''fb_id_token'') s)"
    and "fst (apiFetch (auth_me net) (lit ''/api/auth/me'') no_opts s) = None"
  shows "onDOMContentLoaded p net s =
     showNotLoggedIn (snd (apiFetch (auth_me net) (lit ''/api/auth/me'') no_opts s))"
  using assms by (simp add: onDOMContentLoaded_def Let_def case_prod_unfold)

lemma apiFetch_401:
  "received endpoint path opts s = Response 401 b \<Longrightarrow>
   apiFetch endpoint path opts s =
     (None, s\<lparr>requests := requests s @ [api_request path opts s], localStorage := [],
               navigation := Some (lit ''/'')\<rparr>)"
  by (simp add: apiFetch_cases Let_def)

lemma split_not_Nil: "split d str \<noteq> []"
  by (induction str) (auto split: list.splits)

lemma split_no_separator: "p \<in> set (split d str) \<Longrightarrow> d \<notin> set p"
proof (induction str arbitrary: p)
  case Nil
  then show ?case by simp
next
  case (Cons c cs)
  show ?case
  proof (cases "c = d")
    case True
    with Cons show ?thesis by auto
  next
    case False
    obtain w ws where w: "split d cs = w # ws"
      using split_not_Nil [of d cs] by (cases "split d cs") auto
    with Cons.prems False have "p = c # w \<or> p \<in> set ws" by auto
    with Cons.IH [of w] Cons.IH [of p] w False show ?thesis by auto
  qed
qed

lemma two_parts_iff: "length xs = 2 \<and> xs ! 0 = a \<and> xs ! 1 = b \<longleftrightarrow> xs = [a, b]"
proof (cases xs)
  case Nil
  then show ?thesis by simp
next
  case (Cons x ys)
  then show ?thesis by (cases ys) auto
qed

lemma encodes_chat_segment:
  assumes "encodes_chat path ident"
  shows "ident \<noteq> [] \<and> 0x2F \<notin> set ident"
proof -
  from assms have "ident \<in> set (filter (\<lambda>p. p \<noteq> []) (split 0x2F path))"
    by (simp add: encodes_chat_def)
  then show ?thesis using split_no_separator [of ident "0x2F" path] by simp
qed

lemma encodes_chat_unique: "encodes_chat path i \<Longrightarrow> encodes_chat path j \<Longrightarrow> i = j"
  by (simp add: encodes_chat_def)

lemma onDOMContentLoaded_pass:
  assumes "truthy (getItem (lit ''fb_id_token'') s)"
    and "apiFetch (auth_me net) (lit ''/api/auth/me'') no_opts s = (Some u, s1)"
    and "s4 = loadChatList net (s1\<lparr>user_email_text := email_or_uid u, controls_wired := True\<rparr>)"
  shows "onDOMContentLoaded p net s =
     (if length (pathParts s) = 2 \<and> pathParts s ! 0 = lit ''c''
      then openChat p net (pathParts s ! 1) s4 else s4)"
proof -
  have "pathname s1 = pathname s"
    using apiFetch_frame(2) [of "auth_me net" "lit ''/api/auth/me''" no_opts s] assms(2) by simp
  then have "pathParts s4 = pathParts s"
    by (simp add: pathParts_def assms(3) loadChatList_frame)
  with assms show ?thesis
    by (simp add: onDOMContentLoaded_def Let_def)
qed



section \<open>The elements of the thread stay fresh\<close>

lemma nodes_fresh_cong:
  "messages_panel t = messages_panel s \<Longrightarrow> next_node t = next_node s \<Longrightarrow> nodes_fresh t = nodes_fresh s"
  by (simp add: nodes_fresh_def)

lemma nodes_fresh_initial_page: "nodes_fresh (initial_page storage path)"
  by (simp add: nodes_fresh_def initial_page_def)

lemma nodes_fresh_apiFetch: "nodes_fresh (snd (apiFetch e p opts s)) = nodes_fresh s"
  by (rule nodes_fresh_cong) (simp_all add: apiFetch_frame)

lemma nodes_fresh_loadChatList: "nodes_fresh (loadChatList net s) = nodes_fresh s"
  by (rule nodes_fresh_cong) (simp_all add: loadChatList_frame)

lemma nodes_fresh_highlight: "nodes_fresh (highlight v s) = nodes_fresh s"
  by (rule nodes_fresh_cong) (simp_all add: highlight_frame)

lemma nodes_fresh_appendMessage: "nodes_fresh s \<Longrightarrow> nodes_fresh (snd (appendMessage r c s))"
  by (auto simp: nodes_fresh_def appendMessage_def fresh_node_def appendChild_def)

lemma nodes_fresh_appendTypingIndicator: "nodes_fresh s \<Longrightarrow> nodes_fresh (snd (appendTypingIndicator s))"
  by (auto simp: nodes_fresh_def appendTypingIndicator_def fresh_node_def appendChild_def)

lemma nodes_fresh_remove: "nodes_fresh s \<Longrightarrow> nodes_fresh (remove el s)"
  by (simp add: nodes_fresh_def remove_def)

lemma nodes_fresh_set_panel_innerHTML: "nodes_fresh (set_panel_innerHTML ks s)"
  by (auto simp: nodes_fresh_def set_panel_innerHTML_def dest!: set_zip_leftD)

lemma nodes_fresh_fold_appendMessage:
  "nodes_fresh s \<Longrightarrow>
   nodes_fresh (fold (\<lambda>m st. snd (appendMessage (msg_role m) (msg_content m) st)) ms s)"
  by (induction ms arbitrary: s) (simp_all add: nodes_fresh_appendMessage)

lemma nodes_fresh_updates:
  "nodes_fresh (s\<lparr>msg_input_value := v\<rparr>) = nodes_fresh s"
  "nodes_fresh (s\<lparr>panel_scrollTop := n\<rparr>) = nodes_fresh s"
  "nodes_fresh (s\<lparr>chat_input_area_display := d\<rparr>) = nodes_fresh s"
  "nodes_fresh (s\<lparr>msg_input_focused := b\<rparr>) = nodes_fresh s"
  "nodes_fresh (s\<lparr>auth_overlay_display := d\<rparr>) = nodes_fresh s"
  "nodes_fresh (s\<lparr>user_email_text := d\<rparr>) = nodes_fresh s"
  "nodes_fresh (s\<lparr>controls_wired := b\<rparr>) = nodes_fresh s"
  "nodes_fresh (s\<lparr>activeChatId := a\<rparr>) = nodes_fresh s"
  "nodes_fresh (s\<lparr>pathname := p\<rparr>) = nodes_fresh s"
  "nodes_fresh (s\<lparr>messages_panel := []\<rparr>)"
  by (simp_all add: nodes_fresh_def)

lemma nodes_fresh_scrollToBottom: "nodes_fresh (scrollToBottom s) = nodes_fresh s"
  by (simp add: scrollToBottom_def nodes_fresh_updates)

lemma nodes_fresh_openChat_render: "nodes_fresh (openChat_render d s)"
  by (simp add: openChat_render_def Let_def nodes_fresh_scrollToBottom nodes_fresh_updates
      nodes_fresh_fold_appendMessage)

lemma nodes_fresh_openChat: "nodes_fresh (openChat p net c s)"
  by (simp add: openChat_def Let_def case_prod_unfold showMainError_def
      nodes_fresh_set_panel_innerHTML nodes_fresh_openChat_render split: option.splits)

lemma nodes_fresh_deleteChat_clear: "nodes_fresh s \<Longrightarrow> nodes_fresh (deleteChat_clear c s)"
  by (simp add: deleteChat_clear_def Let_def clearMainPanel_def nodes_fresh_updates
      nodes_fresh_set_panel_innerHTML)

lemma nodes_fresh_deleteChat: "nodes_fresh s \<Longrightarrow> nodes_fresh (deleteChat net ok c s)"
  by (simp add: deleteChat_def Let_def case_prod_unfold nodes_fresh_loadChatList
      nodes_fresh_apiFetch nodes_fresh_deleteChat_clear)

lemma nodes_fresh_createNewChat: "nodes_fresh s \<Longrightarrow> nodes_fresh (createNewChat p net s)"
  by (simp add: createNewChat_def Let_def case_prod_unfold nodes_fresh_openChat
      nodes_fresh_apiFetch split: option.splits)

lemma nodes_fresh_sendMessage_finish:
  "nodes_fresh s \<Longrightarrow> nodes_fresh (sendMessage_finish net el result s)"
  by (cases result)
    (simp_all add: sendMessage_finish_def Let_def nodes_fresh_scrollToBottom nodes_fresh_highlight
      nodes_fresh_loadChatList nodes_fresh_appendMessage nodes_fresh_remove)

lemma nodes_fresh_sendMessage_begin:
  assumes "nodes_fresh s" and "sendMessage_begin s = Some (chatId, message, typingEl, s1)"
  shows "nodes_fresh s1"
proof -
  let ?t = "scrollToBottom ((snd (appendMessage (lit ''user'') (trim (msg_input_value s)) s))
              \<lparr>msg_input_value := []\<rparr>)"
  from assms(2) have "s1 = snd (appendTypingIndicator ?t)"
    by (auto simp: sendMessage_begin_def Let_def case_prod_unfold split: if_splits)
  moreover have "nodes_fresh ?t"
    using assms(1) by (simp add: nodes_fresh_scrollToBottom nodes_fresh_updates nodes_fresh_appendMessage)
  ultimately show ?thesis by (simp add: nodes_fresh_appendTypingIndicator)
qed

lemma nodes_fresh_sendMessage: "nodes_fresh s \<Longrightarrow> nodes_fresh (sendMessage net s)"
proof (cases "sendMessage_begin s")
  case None
  assume "nodes_fresh s"
  with None show ?thesis by (simp add: sendMessage_def)
next
  case (Some x)
  assume f: "nodes_fresh s"
  obtain chatId message typingEl s1 where x: "x = (chatId, message, typingEl, s1)"
    by (cases x) auto
  from nodes_fresh_sendMessage_begin [OF f] Some x have "nodes_fresh s1" by simp
  with Some x show ?thesis
    by (simp add: sendMessage_def Let_def case_prod_unfold nodes_fresh_sendMessage_finish
        nodes_fresh_apiFetch)
qed

lemma nodes_fresh_showNotLoggedIn: "nodes_fresh (showNotLoggedIn s) = nodes_fresh s"
  by (simp add: showNotLoggedIn_def nodes_fresh_updates)

lemma nodes_fresh_onDOMContentLoaded:
  assumes "nodes_fresh s"
  shows "nodes_fresh (onDOMContentLoaded p net s)"
proof (cases "truthy (getItem (lit ''fb_id_token'') s)")
  case False
  with assms show ?thesis
    by (simp add: onDOMContentLoaded_no_token nodes_fresh_showNotLoggedIn)
next
  case True
  let ?f = "apiFetch (auth_me net) (lit ''/api/auth/me'') no_opts s"
  show ?thesis
  proof (cases "fst ?f")
    case None
    with True assms show ?thesis
      by (simp add: onDOMContentLoaded_no_identity nodes_fresh_showNotLoggedIn nodes_fresh_apiFetch)
  next
    case (Some u)
    then have eq: "?f = (Some u, snd ?f)" by (simp add: prod_eq_iff)
    have "nodes_fresh (snd ?f)" using assms by (simp only: nodes_fresh_apiFetch)
    moreover have "nodes_fresh ((snd ?f)\<lparr>user_email_text := email_or_uid u, controls_wired := True\<rparr>)
        = nodes_fresh (snd ?f)"
      by (rule nodes_fresh_cong) simp_all
    ultimately have "nodes_fresh (loadChatList net
        ((snd ?f)\<lparr>user_email_text := email_or_uid u, controls_wired := True\<rparr>))"
      by (simp only: nodes_fresh_loadChatList)
    then show ?thesis
      by (simp add: onDOMContentLoaded_pass [OF True eq refl] nodes_fresh_openChat)
  qed
qed

lemma escapeHtml_inj: "escapeHtml a = escapeHtml b \<Longrightarrow> a = b"
  by (metis decode_escapeHtml)


lemma escapeHtml_error_text:
  "escapeHtml error_text = 0x26A0 # lit '' Error: could not get a reply.''"
  by (simp add: escapeHtml_def replaceAll_def lit_def error_text_def)

lemma sendMessage_thread:
  assumes "activeChatId s = Some chatId" "chatId \<noteq> []"
    and "trim (msg_input_value s) \<noteq> []" and "nodes_fresh s"
  shows "\<exists>s1. messages_panel (sendMessage net s) =
     messages_panel s @
       [(next_node s, Message (lit ''user'') (escapeHtml (trim (msg_input_value s)))),
        (next_node s + 2, Message (lit ''assistant'')
           (escapeHtml (case fst (apiFetch (post_message net)
                                   (lit ''/api/chats/'' @ chatId @ lit ''/messages'')
                                   \<lparr>opt_method = Some (lit ''POST''),
                                    opt_body = Some (MessageBody (trim (msg_input_value s))),
                                    opt_headers = None\<rparr> s1) of
                          None \<Rightarrow> error_text | Some r \<Rightarrow> assistant r)))]"
proof -
  note b = sendMessage_begin_eq [OF assms(1-3)]
  show ?thesis
    by (rule exI, simp add: sendMessage_def b case_prod_unfold Let_def sendMessage_finish_panel
        apiFetch_frame filter_fresh [OF assms(4)])
qed

lemma apiFetch_not_401:
  assumes "\<forall>x. received endpoint path opts s \<noteq> Response 401 x"
  shows "localStorage (snd (apiFetch endpoint path opts s)) = localStorage s"
    and "navigation (snd (apiFetch endpoint path opts s)) = navigation s"
  using assms
  by (auto simp: apiFetch_cases Let_def split: fetch_result.splits body.splits)

lemma url_plain_not_slash: "url_plain c \<Longrightarrow> c \<noteq> 0x2F"
  by (auto simp: url_plain_def)

lemma split_plain: "d \<notin> set str \<Longrightarrow> split d str = [str]"
  by (induction str) auto

lemma encodes_chat_canonical:
  assumes "ident \<noteq> []" and "0x2F \<notin> set ident"
  shows "encodes_chat (lit ''/c/'' @ ident) ident"
  using assms by (simp add: encodes_chat_def lit_def split_plain)

lemma plain_path_chat: "\<forall>x \<in> set c. url_plain x \<Longrightarrow> plain_path (lit ''/c/'' @ c)"
  by (auto simp: plain_path_def lit_def url_plain_def list_all_iff)

lemma pushState_chat_root: "pushState p (lit ''/c/'') s = s\<lparr>pathname := lit ''/c/''\<rparr>"
  by (simp add: pushState_def plain_path_def lit_def url_plain_def)

lemma onDOMContentLoaded_routing:
  assumes "truthy (getItem (lit ''fb_id_token'') s)"
    and "apiFetch (auth_me net) (lit ''/api/auth/me'') no_opts s = (Some u, s1)"
    and "s4 = loadChatList net (s1\<lparr>user_email_text := email_or_uid u, controls_wired := True\<rparr>)"
  shows "encodes_chat (pathname s) ident \<Longrightarrow>
           onDOMContentLoaded p net s = openChat p net ident s4"
    and "\<forall>i. \<not> encodes_chat (pathname s) i \<Longrightarrow> onDOMContentLoaded p net s = s4"
    and "activeChatId s4 = activeChatId s"
proof -
  note run = onDOMContentLoaded_pass [OF assms]
  have enc: "\<And>i. encodes_chat (pathname s) i \<longleftrightarrow>
      length (pathParts s) = 2 \<and> pathParts s ! 0 = lit ''c'' \<and> pathParts s ! 1 = i"
    unfolding encodes_chat_def pathParts_def by (rule two_parts_iff [symmetric])
  show "encodes_chat (pathname s) ident \<Longrightarrow>
           onDOMContentLoaded p net s = openChat p net ident s4"
    by (simp add: run enc)
  show "\<forall>i. \<not> encodes_chat (pathname s) i \<Longrightarrow> onDOMContentLoaded p net s = s4"
    by (auto simp: run enc)
  have "activeChatId s1 = activeChatId s"
    using apiFetch_frame(1) [of "auth_me net" "lit ''/api/auth/me''" no_opts s] assms(2) by simp
  then show "activeChatId s4 = activeChatId s"
    by (simp add: assms(3) loadChatList_frame)
qed

lemma onDOMContentLoaded_not_passed:
  assumes "\<not> truthy (getItem (lit ''fb_id_token'') s)
         \<or> fst (apiFetch (auth_me net) (lit ''/api/auth/me'') no_opts s) = None"
  shows "activeChatId (onDOMContentLoaded p net s) = activeChatId s"
    and "pathname (onDOMContentLoaded p net s) = pathname s"
    and "messages_panel (onDOMContentLoaded p net s) = messages_panel s"
    and "chat_list (onDOMContentLoaded p net s) = chat_list s"
    and "requests (onDOMContentLoaded p net s) =
           (if truthy (getItem (lit ''fb_id_token'') s)
            then requests s @ [api_request (lit ''/api/auth/me'') no_opts s] else requests s)"
proof -
  have "onDOMContentLoaded p net s =
      (if truthy (getItem (lit ''fb_id_token'') s)
       then showNotLoggedIn (snd (apiFetch (auth_me net) (lit ''/api/auth/me'') no_opts s))
       else showNotLoggedIn s)"
    using assms by (auto simp: onDOMContentLoaded_no_token onDOMContentLoaded_no_identity)
  then show "activeChatId (onDOMContentLoaded p net s) = activeChatId s"
    and "pathname (onDOMContentLoaded p net s) = pathname s"
    and "messages_panel (onDOMContentLoaded p net s) = messages_panel s"
    and "chat_list (onDOMContentLoaded p net s) = chat_list s"
    and "requests (onDOMContentLoaded p net s) =
           (if truthy (getItem (lit ''fb_id_token'') s)
            then requests s @ [api_request (lit ''/api/auth/me'') no_opts s] else requests s)"
    by (simp_all add: showNotLoggedIn_def apiFetch_frame)
qed


section \<open>Claims\<close>

text \<open>
  C1, as amended. \<^verbatim>\<open>escapeHtml\<close> escapes four metacharacters, not five: every \<^verbatim>\<open>&\<close>,
  \<^verbatim>\<open><\<close>, \<^verbatim>\<open>>\<close> and double quote of the input stands in the output as its entity, in place,
  and every other code unit (the apostrophe too) stands for itself. The output has no raw
  \<^verbatim>\<open><\<close>, \<^verbatim>\<open>>\<close> or double quote, and reading the entities back gives the input. The bubble
  that \<^verbatim>\<open>appendMessage\<close> appends holds the escaped content, and both places where a row of
  the sidebar shows a chat's title hold the escaped title.
\<close>

theorem escapeHtml_four_metacharacters:
  "escapeHtml str = concat (map html_entity str)
   \<and> (\<forall>c \<in> set (escapeHtml str). c \<noteq> 0x3C \<and> c \<noteq> 0x3E \<and> c \<noteq> 0x22)
   \<and> decode_entities (escapeHtml str) = str
   \<and> (c \<noteq> 0x26 \<and> c \<noteq> 0x3C \<and> c \<noteq> 0x3E \<and> c \<noteq> 0x22 \<longrightarrow> escapeHtml [c] = [c])
   \<and> messages_panel (snd (appendMessage r str s))
       = messages_panel s @ [(next_node s, Message r (escapeHtml str))]
   \<and> (chats \<noteq> [] \<longrightarrow>
        map title_text (chat_list (renderChatList chats s)) = map (\<lambda>c. escapeHtml (chat_title c)) chats
        \<and> map title_attr (chat_list (renderChatList chats s)) = map (\<lambda>c. escapeHtml (chat_title c)) chats)"
proof -
  have "c \<noteq> 0x26 \<and> c \<noteq> 0x3C \<and> c \<noteq> 0x3E \<and> c \<noteq> 0x22 \<longrightarrow> escapeHtml [c] = [c]"
    by (simp add: escapeHtml_concat html_entity_def)
  moreover have "chats \<noteq> [] \<longrightarrow>
        map title_text (chat_list (renderChatList chats s)) = map (\<lambda>c. escapeHtml (chat_title c)) chats
        \<and> map title_attr (chat_list (renderChatList chats s)) = map (\<lambda>c. escapeHtml (chat_title c)) chats"
    by (simp add: renderChatList_eq chat_row_def)
  ultimately show ?thesis
    using escapeHtml_concat [of str] escapeHtml_safe [of _ str] decode_escapeHtml [of str]
      appendMessage_panel [of r str s]
    by blast
qed

theorem escapeHtml_four_metacharacters_witness:
  "escapeHtml [0x61, 0x26, 0x3C, 0x3E, 0x22, 0x27] = lit ''a&amp;&lt;&gt;&quot;'' @ [0x27]
   \<and> decode_entities (escapeHtml [0x61, 0x26, 0x3C, 0x3E, 0x22, 0x27]) = [0x61, 0x26, 0x3C, 0x3E, 0x22, 0x27]
   \<and> map title_text (chat_list (renderChatList [Chat (lit ''id1'') [0x3C, 0x62, 0x3E]] (initial_page [] (lit ''/c/''))))
       = [lit ''&lt;b&gt;'']"
  using escapeHtml_four_metacharacters [where str = "[0x61, 0x26, 0x3C, 0x3E, 0x22, 0x27]"
      and s = "initial_page [] (lit ''/c/'')" and chats = "[Chat (lit ''id1'') [0x3C, 0x62, 0x3E]]"]
  by (simp add: html_entity_def lit_def escapeHtml_def replaceAll_def)

text \<open>
  C1 as stated speaks of five metacharacters. The apostrophe, the fifth, comes out of
  \<^verbatim>\<open>escapeHtml\<close> as it went in, next to the four that are escaped.
\<close>

theorem escapeHtml_apostrophe_counterexample:
  "escapeHtml [0x26, 0x3C, 0x3E, 0x22, 0x27] = lit ''&amp;&lt;&gt;&quot;'' @ [0x27]"
  by (simp add: escapeHtml_def replaceAll_def lit_def)

text \<open>
  C4. \<^verbatim>\<open>apiFetch\<close> returns \<^verbatim>\<open>null\<close> when \<^verbatim>\<open>fetch\<close> rejects, when the status is 401 or
  any other outside 200 to 299, and when the body of a successful response is not JSON (or
  is the JSON \<^verbatim>\<open>null\<close>); otherwise it returns the parsed payload. Every exception
  raised in its \<^verbatim>\<open>try\<close> block ends in the \<^verbatim>\<open>catch\<close> clause, which returns \<^verbatim>\<open>null\<close>, so none
  reaches the caller. Each call issues exactly one request.
\<close>

theorem apiFetch_never_throws:
  "fst (apiFetch endpoint path opts s) =
     (case received endpoint path opts s of
        Rejected \<Rightarrow> None
      | Response status b \<Rightarrow>
          if status = 401 \<or> status < 200 \<or> 299 < status then None
          else (case b of Malformed \<Rightarrow> None | JsonNull \<Rightarrow> None | Json v \<Rightarrow> Some v))
   \<and> (\<forall>err s'. apiFetch_try endpoint (api_request path opts s) s = (Inl err, s') \<longrightarrow>
         apiFetch endpoint path opts s = (None, s'\<lparr>console_errors := console_errors s' @ [err]\<rparr>))
   \<and> requests (snd (apiFetch endpoint path opts s)) = requests s @ [api_request path opts s]"
proof -
  have 1: "fst (apiFetch endpoint path opts s) =
     (case received endpoint path opts s of
        Rejected \<Rightarrow> None
      | Response status b \<Rightarrow>
          if status = 401 \<or> status < 200 \<or> 299 < status then None
          else (case b of Malformed \<Rightarrow> None | JsonNull \<Rightarrow> None | Json v \<Rightarrow> Some v))"
    by (simp add: apiFetch_cases Let_def split: fetch_result.splits body.splits)
  have 2: "\<forall>err s'. apiFetch_try endpoint (api_request path opts s) s = (Inl err, s') \<longrightarrow>
         apiFetch endpoint path opts s = (None, s'\<lparr>console_errors := console_errors s' @ [err]\<rparr>)"
    by (simp add: apiFetch_def)
  have 3: "requests (snd (apiFetch endpoint path opts s)) = requests s @ [api_request path opts s]"
    by (simp add: apiFetch_cases Let_def split: fetch_result.splits body.splits)
  from 1 2 3 show ?thesis by blast
qed

theorem apiFetch_never_throws_witness:
  "fst (apiFetch (\<lambda>_. Rejected :: chat fetch_result) (lit ''/api/chats'') no_opts (logged_in_page (lit ''/c/''))) = None
   \<and> fst (apiFetch (\<lambda>_. Response 200 (Malformed :: chat body)) (lit ''/api/chats'') no_opts (logged_in_page (lit ''/c/''))) = None
   \<and> fst (apiFetch (\<lambda>_. Response 500 (Json (Chat [] []))) (lit ''/api/chats'') no_opts (logged_in_page (lit ''/c/''))) = None
   \<and> fst (apiFetch (\<lambda>_. Response 200 (Json (Chat [] []))) (lit ''/api/chats'') no_opts (logged_in_page (lit ''/c/'')))
       = Some (Chat [] [])
   \<and> apiFetch_try (\<lambda>_. Rejected :: chat fetch_result) (api_request (lit ''/api/chats'') no_opts (logged_in_page (lit ''/c/'')))
        (logged_in_page (lit ''/c/''))
       = (Inl FetchFailed, (logged_in_page (lit ''/c/''))
            \<lparr>requests := [api_request (lit ''/api/chats'') no_opts (logged_in_page (lit ''/c/''))]\<rparr>)"
  using apiFetch_never_throws [of "\<lambda>_. Rejected :: chat fetch_result" "lit ''/api/chats''" no_opts "logged_in_page (lit ''/c/'')"]
    apiFetch_never_throws [of "\<lambda>_. Response 200 (Malformed :: chat body)" "lit ''/api/chats''" no_opts "logged_in_page (lit ''/c/'')"]
    apiFetch_never_throws [of "\<lambda>_. Response 500 (Json (Chat [] []))" "lit ''/api/chats''" no_opts "logged_in_page (lit ''/c/'')"]
    apiFetch_never_throws [of "\<lambda>_. Response 200 (Json (Chat [] []))" "lit ''/api/chats''" no_opts "logged_in_page (lit ''/c/'')"]
  by (simp add: received_def apiFetch_try_def logged_in_page_def initial_page_def)

text \<open>
  C9. When the transport adapter returns \<^verbatim>\<open>null\<close> for the list of chats, or returns the
  empty list, \<^verbatim>\<open>loadChatList\<close> leaves exactly one row in the sidebar, the placeholder, which
  is no chat item.
\<close>

theorem loadChatList_empty_placeholder:
  assumes "fst (apiFetch (list_chats net) (lit ''/api/chats'') no_opts s) = None
         \<or> fst (apiFetch (list_chats net) (lit ''/api/chats'') no_opts s) = Some []"
  shows "chat_list (loadChatList net s) = [EmptyHint]"
  using assms by (auto simp: loadChatList_def renderChatList_eq split: prod.splits)

theorem loadChatList_empty_placeholder_witness:
  "fst (apiFetch (list_chats (status_backend 500)) (lit ''/api/chats'') no_opts (logged_in_page (lit ''/c/''))) = None
   \<and> chat_list (loadChatList (status_backend 500) (logged_in_page (lit ''/c/''))) = [EmptyHint]"
  using loadChatList_empty_placeholder [of "status_backend 500" "logged_in_page (lit ''/c/'')"]
  by (simp add: apiFetch_cases received_def status_backend_def)

text \<open>
  C10. \<^verbatim>\<open>renderChatList\<close> empties the list before it renders: rendering the same chats
  twice gives the state that rendering them once gives, whatever the list held before;
  the rows are as many as the chats, one for each in order, or the one placeholder when
  there is no chat.
\<close>

theorem renderChatList_idempotent:
  "renderChatList chats (renderChatList chats s) = renderChatList chats s
   \<and> length (chat_list (renderChatList chats s)) = (if chats = [] then 1 else length chats)
   \<and> (chats = [] \<longrightarrow> chat_list (renderChatList chats s) = [EmptyHint])
   \<and> (chats \<noteq> [] \<longrightarrow> chat_list (renderChatList chats s) = map (chat_row (activeChatId s)) chats)"
  by (simp add: renderChatList_eq)

theorem renderChatList_idempotent_witness:
  "chat_list (renderChatList [Chat (lit ''a'') (lit ''T'')]
      (renderChatList [Chat (lit ''a'') (lit ''T'')] (initial_page [] (lit ''/c/''))))
     = [ChatItem (lit ''a'') False (lit ''T'') (lit ''T'') (lit ''a'')]
   \<and> chat_list (renderChatList [] (renderChatList [] (initial_page [] (lit ''/c/'')))) = [EmptyHint]"
  using renderChatList_idempotent [of "[Chat (lit ''a'') (lit ''T'')]" "initial_page [] (lit ''/c/'')"]
    renderChatList_idempotent [of "[]" "initial_page [] (lit ''/c/'')"]
  by (simp add: chat_row_def initial_page_def escapeHtml_def replaceAll_def lit_def)

text \<open>
  C7. With no active chat identifier (\<^verbatim>\<open>null\<close> or empty), or with composed text that is
  empty or made of white space only, \<^verbatim>\<open>sendMessage\<close> changes nothing: the state after is
  the state before, so no request was issued and no bubble appended.
\<close>

theorem sendMessage_noop:
  assumes "\<not> truthy (activeChatId s) \<or> (\<forall>c \<in> set (msg_input_value s). is_white_space c)"
  shows "sendMessage net s = s
       \<and> requests (sendMessage net s) = requests s
       \<and> messages_panel (sendMessage net s) = messages_panel s"
proof -
  from assms have "sendMessage_begin s = None"
    by (auto simp: sendMessage_begin_def trim_empty_iff Let_def)
  then show ?thesis by (simp add: sendMessage_def)
qed

theorem sendMessage_noop_witness:
  "is_white_space 0x20 \<and> is_white_space 0x09 \<and> is_white_space 0x0A
   \<and> sendMessage demo_backend ((logged_in_page (lit ''/c/abc''))
        \<lparr>activeChatId := Some (lit ''abc''), msg_input_value := [0x20, 0x09, 0x0A]\<rparr>)
      = (logged_in_page (lit ''/c/abc''))\<lparr>activeChatId := Some (lit ''abc''), msg_input_value := [0x20, 0x09, 0x0A]\<rparr>
   \<and> \<not> truthy (activeChatId ((logged_in_page (lit ''/c/''))\<lparr>msg_input_value := lit ''hi''\<rparr>))
   \<and> requests (sendMessage demo_backend ((logged_in_page (lit ''/c/''))\<lparr>msg_input_value := lit ''hi''\<rparr>)) = []"
  using sendMessage_noop [of "(logged_in_page (lit ''/c/abc''))
        \<lparr>activeChatId := Some (lit ''abc''), msg_input_value := [0x20, 0x09, 0x0A]\<rparr>" demo_backend]
    sendMessage_noop [of "(logged_in_page (lit ''/c/''))\<lparr>msg_input_value := lit ''hi''\<rparr>" demo_backend]
  by (simp add: is_white_space_def truthy_def logged_in_page_def initial_page_def)

text \<open>
  C6, as amended. A declined \<^verbatim>\<open>deleteChat\<close> changes nothing. A confirmed one that fails
  (the adapter returns \<^verbatim>\<open>null\<close>) ends in the state the adapter left: apart from the log
  of requests and of console errors that is the state before, unless the answer was
  status 401, for which local storage is cleared and the navigation to \<^verbatim>\<open>/\<close> started. A
  confirmed one that succeeds reloads the list in every case, as its last step; when the
  deleted chat was the active one, the active identifier is cleared, the location is the
  chat root and the thread is the empty-state placeholder already when the request of
  the reload is issued, and they stay so; when it was not, nothing but the reload happens.
\<close>

theorem deleteChat_effects:
  assumes "opts = \<lparr>opt_method = Some (lit ''DELETE''), opt_body = None, opt_headers = None\<rparr>"
    and "path = lit ''/api/chats/'' @ chatId"
    and "apiFetch (delete_chat net) path opts s = (result, s1)"
    and "s2 = deleteChat_clear chatId s1"
  shows "deleteChat net False chatId s = s
    \<and> (result = None \<longrightarrow> deleteChat net True chatId s = s1)
    \<and> (result = None \<and> (\<forall>b. received (delete_chat net) path opts s \<noteq> Response 401 b) \<longrightarrow>
          s1\<lparr>requests := requests s, console_errors := console_errors s\<rparr> = s)
    \<and> (\<forall>b. received (delete_chat net) path opts s = Response 401 b \<longrightarrow>
          result = None \<and> localStorage s1 = [] \<and> navigation s1 = Some (lit ''/''))
    \<and> (result \<noteq> None \<longrightarrow>
          deleteChat net True chatId s = loadChatList net s2
        \<and> requests s2 = requests s1
        \<and> requests (deleteChat net True chatId s)
            = requests s2 @ [api_request (lit ''/api/chats'') no_opts s2]
        \<and> (activeChatId s = Some chatId \<longrightarrow>
              activeChatId s2 = None \<and> pathname s2 = lit ''/c/''
            \<and> map snd (messages_panel s2) = [EmptyChat]
            \<and> activeChatId (deleteChat net True chatId s) = None
            \<and> pathname (deleteChat net True chatId s) = lit ''/c/''
            \<and> map snd (messages_panel (deleteChat net True chatId s)) = [EmptyChat])
        \<and> (activeChatId s \<noteq> Some chatId \<longrightarrow> s2 = s1))"
proof -
  have a1: "activeChatId s1 = activeChatId s"
    using apiFetch_frame(1) [of "delete_chat net" path opts s] assms(3) by simp
  have c1: "deleteChat net False chatId s = s" by (simp add: deleteChat_def)
  have c2: "result = None \<longrightarrow> deleteChat net True chatId s = s1"
    using assms(1-3) by (simp add: deleteChat_def)
  have c3: "result = None \<and> (\<forall>b. received (delete_chat net) path opts s \<noteq> Response 401 b) \<longrightarrow>
          s1\<lparr>requests := requests s, console_errors := console_errors s\<rparr> = s"
    using assms(3)
    by (auto simp: apiFetch_cases Let_def split: fetch_result.splits body.splits if_splits)
  have c4: "\<forall>b. received (delete_chat net) path opts s = Response 401 b \<longrightarrow>
          result = None \<and> localStorage s1 = [] \<and> navigation s1 = Some (lit ''/'')"
    using assms(3) by (auto simp: apiFetch_cases Let_def)
  have d: "result \<noteq> None \<Longrightarrow> deleteChat net True chatId s = loadChatList net s2"
    using assms by (auto simp: deleteChat_def)
  have r2: "requests s2 = requests s1" by (simp add: assms(4) deleteChat_clear_requests)
  have act: "activeChatId s = Some chatId \<Longrightarrow>
       activeChatId s2 = None \<and> pathname s2 = lit ''/c/'' \<and> map snd (messages_panel s2) = [EmptyChat]"
    using a1 by (simp add: assms(4) deleteChat_clear_active)
  have oth: "activeChatId s \<noteq> Some chatId \<Longrightarrow> s2 = s1"
    using a1 by (simp add: assms(4) deleteChat_clear_other)
  have c5: "result \<noteq> None \<longrightarrow>
          deleteChat net True chatId s = loadChatList net s2
        \<and> requests s2 = requests s1
        \<and> requests (deleteChat net True chatId s)
            = requests s2 @ [api_request (lit ''/api/chats'') no_opts s2]
        \<and> (activeChatId s = Some chatId \<longrightarrow>
              activeChatId s2 = None \<and> pathname s2 = lit ''/c/''
            \<and> map snd (messages_panel s2) = [EmptyChat]
            \<and> activeChatId (deleteChat net True chatId s) = None
            \<and> pathname (deleteChat net True chatId s) = lit ''/c/''
            \<and> map snd (messages_panel (deleteChat net True chatId s)) = [EmptyChat])
        \<and> (activeChatId s \<noteq> Some chatId \<longrightarrow> s2 = s1)"
    using d r2 act oth by (simp add: loadChatList_frame)
  from c1 c2 c3 c4 c5 show ?thesis by blast
qed

theorem deleteChat_effects_witness:
  "fst (apiFetch (delete_chat demo_backend) (lit ''/api/chats/'' @ lit ''abc'')
      \<lparr>opt_method = Some (lit ''DELETE''), opt_body = None, opt_headers = None\<rparr>
      ((logged_in_page (lit ''/c/abc''))\<lparr>activeChatId := Some (lit ''abc'')\<rparr>)) \<noteq> None
   \<and> activeChatId (deleteChat demo_backend True (lit ''abc'')
        ((logged_in_page (lit ''/c/abc''))\<lparr>activeChatId := Some (lit ''abc'')\<rparr>)) = None
   \<and> pathname (deleteChat demo_backend True (lit ''abc'')
        ((logged_in_page (lit ''/c/abc''))\<lparr>activeChatId := Some (lit ''abc'')\<rparr>)) = lit ''/c/''
   \<and> map snd (messages_panel (deleteChat demo_backend True (lit ''abc'')
        ((logged_in_page (lit ''/c/abc''))\<lparr>activeChatId := Some (lit ''abc'')\<rparr>))) = [EmptyChat]
   \<and> length (requests (deleteChat demo_backend True (lit ''abc'')
        ((logged_in_page (lit ''/c/abc''))\<lparr>activeChatId := Some (lit ''abc'')\<rparr>))) = 2"
proof -
  let ?s = "(logged_in_page (lit ''/c/abc''))\<lparr>activeChatId := Some (lit ''abc'')\<rparr>"
  let ?f = "apiFetch (delete_chat demo_backend) (lit ''/api/chats/'' @ lit ''abc'')
      \<lparr>opt_method = Some (lit ''DELETE''), opt_body = None, opt_headers = None\<rparr> ?s"
  have ok: "fst ?f \<noteq> None"
    by (simp add: apiFetch_cases received_def demo_backend_def)
  have rq: "requests (snd ?f) = [api_request (lit ''/api/chats/'' @ lit ''abc'')
      \<lparr>opt_method = Some (lit ''DELETE''), opt_body = None, opt_headers = None\<rparr> ?s]"
    by (simp add: apiFetch_frame logged_in_page_def initial_page_def)
  show ?thesis
    using deleteChat_effects [OF refl refl surjective_pairing refl, of demo_backend "lit ''abc''" ?s] ok rq
    by (simp add: loadChatList_frame)
qed

text \<open>
  C6 as stated fails on a failure with status 401: the deletion fails, and local storage
  and the pending navigation are not what they were.
\<close>

theorem deleteChat_unauthenticated_counterexample:
  "fst (apiFetch (delete_chat (status_backend 401)) (lit ''/api/chats/'' @ lit ''abc'')
      \<lparr>opt_method = Some (lit ''DELETE''), opt_body = None, opt_headers = None\<rparr>
      (logged_in_page (lit ''/c/abc''))) = None
   \<and> localStorage (logged_in_page (lit ''/c/abc'')) = [(lit ''fb_id_token'', lit ''tok'')]
   \<and> navigation (logged_in_page (lit ''/c/abc'')) = None
   \<and> localStorage (deleteChat (status_backend 401) True (lit ''abc'') (logged_in_page (lit ''/c/abc''))) = []
   \<and> navigation (deleteChat (status_backend 401) True (lit ''abc'') (logged_in_page (lit ''/c/abc'')))
       = Some (lit ''/'')"
  by (simp add: deleteChat_def apiFetch_cases received_def status_backend_def
      logged_in_page_def initial_page_def Let_def)

text \<open>
  C2, as amended. For a send with an active chat and a message that is not empty after
  trimming, in a thread whose elements are older than the next to be created: up to the
  request, the thread has grown by the user bubble and then the typing placeholder, and no
  request has been issued; exactly one request is issued, and when its result is available
  the thread is still that one; at the end the thread is the old thread, the user bubble,
  and exactly one more bubble. That bubble has the role assistant in both outcomes: on
  success it holds the reply, on failure the fixed text of the warning sign and
  \<^verbatim>\<open> Error: could not get a reply.\<close> The error bubble is marked by that text alone: it is
  the bubble of a reply exactly when the reply is that very text. The typing placeholder
  is in the thread while the request is pending and gone at the end: the thread then has
  the typing elements it had before the send, none if it had none.
\<close>

theorem sendMessage_effect_sequence:
  assumes active: "activeChatId s = Some chatId" "chatId \<noteq> []"
    and msg: "message = trim (msg_input_value s)" "message \<noteq> []"
    and fresh: "nodes_fresh s"
    and els: "userEl = (next_node s, Message (lit ''user'') (escapeHtml message))"
      "typingEl = (Suc (next_node s), Typing)"
  shows "\<exists>s1 result s2.
      sendMessage_begin s = Some (chatId, message, typingEl, s1)
    \<and> messages_panel s1 = messages_panel s @ [userEl, typingEl]
    \<and> requests s1 = requests s
    \<and> apiFetch (post_message net) (lit ''/api/chats/'' @ chatId @ lit ''/messages'')
         \<lparr>opt_method = Some (lit ''POST''), opt_body = Some (MessageBody message),
          opt_headers = None\<rparr> s1 = (result, s2)
    \<and> length (requests s2) = Suc (length (requests s))
    \<and> messages_panel s2 = messages_panel s @ [userEl, typingEl]
    \<and> sendMessage net s = sendMessage_finish net typingEl result s2
    \<and> messages_panel (sendMessage net s) =
         messages_panel s @ [userEl,
           (next_node s + 2, Message (lit ''assistant'')
              (escapeHtml (case result of None \<Rightarrow> error_text | Some r \<Rightarrow> assistant r)))]
    \<and> typing_nodes s1 = typing_nodes s @ [typingEl]
    \<and> typing_nodes (sendMessage net s) = typing_nodes s
    \<and> (result = None \<longrightarrow>
         messages_panel (sendMessage net s) =
           messages_panel s @ [userEl,
             (next_node s + 2,
              Message (lit ''assistant'') (0x26A0 # lit '' Error: could not get a reply.''))])
    \<and> (\<forall>r. result = Some r \<longrightarrow>
         messages_panel (sendMessage net s) =
           messages_panel s @ [userEl,
             (next_node s + 2, Message (lit ''assistant'') (escapeHtml (assistant r)))])
    \<and> (\<forall>r. Message (lit ''assistant'') (escapeHtml (assistant r))
            = Message (lit ''assistant'') (0x26A0 # lit '' Error: could not get a reply.'')
          \<longleftrightarrow> assistant r = 0x26A0 # lit '' Error: could not get a reply.'')"
proof -
  define s1 where "s1 = s\<lparr>messages_panel := messages_panel s @ [userEl, typingEl],
         next_node := Suc (Suc (next_node s)),
         msg_input_value := [],
         panel_scrollTop := Suc (length (messages_panel s))\<rparr>"
  define opts where "opts = \<lparr>opt_method = Some (lit ''POST''), opt_body = Some (MessageBody message),
          opt_headers = None\<rparr>"
  define path where "path = lit ''/api/chats/'' @ chatId @ lit ''/messages''"
  define result where "result = fst (apiFetch (post_message net) path opts s1)"
  define s2 where "s2 = snd (apiFetch (post_message net) path opts s1)"
  have started: "sendMessage_begin s = Some (chatId, message, typingEl, s1)"
    using sendMessage_begin_eq [OF active] msg by (simp add: s1_def els)
  have p1: "messages_panel s1 = messages_panel s @ [userEl, typingEl]"
    and r1: "requests s1 = requests s" and n1: "next_node s1 = next_node s + 2"
    by (simp_all add: s1_def)
  have fetch: "apiFetch (post_message net) path opts s1 = (result, s2)"
    by (simp add: result_def s2_def)
  have p2: "messages_panel s2 = messages_panel s @ [userEl, typingEl]"
    and n2: "next_node s2 = next_node s + 2"
    and r2: "length (requests s2) = Suc (length (requests s))"
    by (simp_all add: s2_def apiFetch_frame p1 n1 r1)
  have send: "sendMessage net s = sendMessage_finish net typingEl result s2"
    using fetch by (simp add: sendMessage_def started path_def opts_def)
  have final: "messages_panel (sendMessage net s) =
         messages_panel s @ [userEl,
           (next_node s + 2, Message (lit ''assistant'')
              (escapeHtml (case result of None \<Rightarrow> error_text | Some r \<Rightarrow> assistant r)))]"
    by (simp add: send sendMessage_finish_panel p2 n2 els filter_fresh [OF fresh])
  have t1: "typing_nodes s1 = typing_nodes s @ [typingEl]"
    by (simp add: typing_nodes_def p1 els)
  have t2: "typing_nodes (sendMessage net s) = typing_nodes s"
    by (simp add: typing_nodes_def final els)
  have e: "escapeHtml error_text = 0x26A0 # lit '' Error: could not get a reply.''"
    by (rule escapeHtml_error_text)
  have f1: "result = None \<longrightarrow>
         messages_panel (sendMessage net s) =
           messages_panel s @ [userEl,
             (next_node s + 2,
              Message (lit ''assistant'') (0x26A0 # lit '' Error: could not get a reply.''))]"
    by (simp add: final e)
  have f2: "\<forall>r. result = Some r \<longrightarrow>
         messages_panel (sendMessage net s) =
           messages_panel s @ [userEl,
             (next_node s + 2, Message (lit ''assistant'') (escapeHtml (assistant r)))]"
    by (simp add: final)
  have d: "\<forall>r. Message (lit ''assistant'') (escapeHtml (assistant r))
            = Message (lit ''assistant'') (0x26A0 # lit '' Error: could not get a reply.'')
          \<longleftrightarrow> assistant r = 0x26A0 # lit '' Error: could not get a reply.''"
    using escapeHtml_inj [of _ error_text] e by (auto simp: error_text_def)
  from started p1 r1 fetch r2 p2 send final t1 t2 f1 f2 d show ?thesis
    unfolding path_def opts_def by blast
qed

theorem sendMessage_effect_sequence_witness:
  "nodes_fresh (composing_page (lit '' hi ''))
   \<and> trim (lit '' hi '') = lit ''hi''
   \<and> messages_panel (sendMessage demo_backend (composing_page (lit '' hi '')))
      = [(0, Message (lit ''user'') (lit ''hi'')), (2, Message (lit ''assistant'') (lit ''hello''))]
   \<and> messages_panel (sendMessage (status_backend 500) (composing_page (lit '' hi '')))
      = [(0, Message (lit ''user'') (lit ''hi'')),
         (2, Message (lit ''assistant'') (0x26A0 # lit '' Error: could not get a reply.''))]"
proof -
  let ?s = "composing_page (lit '' hi '')"
  have f: "nodes_fresh ?s"
    by (simp add: nodes_fresh_def composing_page_def logged_in_page_def initial_page_def)
  have t: "trim (lit '' hi '') = lit ''hi''" by (simp add: trim_def lit_def is_white_space_def)
  have a: "activeChatId ?s = Some (lit ''abc'')" "lit ''abc'' \<noteq> []"
    by (simp_all add: composing_page_def lit_def)
  have m: "lit ''hi'' = trim (msg_input_value ?s)" "lit ''hi'' \<noteq> []"
    by (simp_all add: t composing_page_def) (simp add: lit_def)
  have n: "next_node ?s = 0" "messages_panel ?s = []"
    by (simp_all add: composing_page_def logged_in_page_def initial_page_def)
  have e: "escapeHtml (lit ''hi'') = lit ''hi''" "escapeHtml (lit ''hello'') = lit ''hello''"
    by (simp_all add: escapeHtml_def replaceAll_def lit_def)
  have r1: "\<And>s1. fst (apiFetch (post_message demo_backend) (lit ''/api/chats/'' @ lit ''abc'' @ lit ''/messages'')
         \<lparr>opt_method = Some (lit ''POST''), opt_body = Some (MessageBody (lit ''hi'')),
          opt_headers = None\<rparr> s1) = Some (Reply (lit ''hello''))"
    by (simp add: apiFetch_cases received_def demo_backend_def)
  have r2: "\<And>s1. fst (apiFetch (post_message (status_backend 500)) (lit ''/api/chats/'' @ lit ''abc'' @ lit ''/messages'')
         \<lparr>opt_method = Some (lit ''POST''), opt_body = Some (MessageBody (lit ''hi'')),
          opt_headers = None\<rparr> s1) = None"
    by (simp add: apiFetch_cases received_def status_backend_def)
  from sendMessage_effect_sequence [OF a m f refl refl, of demo_backend]
  obtain s1 result s2 where
    "apiFetch (post_message demo_backend) (lit ''/api/chats/'' @ lit ''abc'' @ lit ''/messages'')
         \<lparr>opt_method = Some (lit ''POST''), opt_body = Some (MessageBody (lit ''hi'')),
          opt_headers = None\<rparr> s1 = (result, s2)"
    and "\<forall>r. result = Some r \<longrightarrow>
         messages_panel (sendMessage demo_backend ?s) =
           messages_panel ?s @ [(next_node ?s, Message (lit ''user'') (escapeHtml (lit ''hi''))),
             (next_node ?s + 2, Message (lit ''assistant'') (escapeHtml (assistant r)))]"
    by blast
  with r1 [of s1] have ok: "messages_panel (sendMessage demo_backend ?s)
      = [(0, Message (lit ''user'') (lit ''hi'')), (2, Message (lit ''assistant'') (lit ''hello''))]"
    by (simp add: n e)
  from sendMessage_effect_sequence [OF a m f refl refl, of "status_backend 500"]
  obtain s1 result s2 where
    "apiFetch (post_message (status_backend 500)) (lit ''/api/chats/'' @ lit ''abc'' @ lit ''/messages'')
         \<lparr>opt_method = Some (lit ''POST''), opt_body = Some (MessageBody (lit ''hi'')),
          opt_headers = None\<rparr> s1 = (result, s2)"
    and "result = None \<longrightarrow>
         messages_panel (sendMessage (status_backend 500) ?s) =
           messages_panel ?s @ [(next_node ?s, Message (lit ''user'') (escapeHtml (lit ''hi''))),
             (next_node ?s + 2,
              Message (lit ''assistant'') (0x26A0 # lit '' Error: could not get a reply.''))]"
    by blast
  with r2 [of s1] have err: "messages_panel (sendMessage (status_backend 500) ?s)
      = [(0, Message (lit ''user'') (lit ''hi'')),
         (2, Message (lit ''assistant'') (0x26A0 # lit '' Error: could not get a reply.''))]"
    by (simp add: n e)
  from f t ok err show ?thesis by blast
qed

text \<open>
  C2 as stated has the error bubble visibly distinct from an assistant bubble. A send
  that succeeds with a reply of the error's text and a send that fails leave the same
  thread, element for element.
\<close>

theorem error_bubble_like_reply_counterexample:
  "fst (apiFetch (post_message error_echo_backend) (lit ''/api/chats/abc/messages'')
         \<lparr>opt_method = Some (lit ''POST''), opt_body = Some (MessageBody (lit ''hi'')),
          opt_headers = None\<rparr> (composing_page (lit '' hi ''))) = Some (Reply error_text)
   \<and> fst (apiFetch (post_message (status_backend 500)) (lit ''/api/chats/abc/messages'')
         \<lparr>opt_method = Some (lit ''POST''), opt_body = Some (MessageBody (lit ''hi'')),
          opt_headers = None\<rparr> (composing_page (lit '' hi ''))) = None
   \<and> messages_panel (sendMessage error_echo_backend (composing_page (lit '' hi '')))
      = [(0, Message (lit ''user'') (lit ''hi'')),
         (2, Message (lit ''assistant'') (0x26A0 # lit '' Error: could not get a reply.''))]
   \<and> messages_panel (sendMessage (status_backend 500) (composing_page (lit '' hi '')))
      = [(0, Message (lit ''user'') (lit ''hi'')),
         (2, Message (lit ''assistant'') (0x26A0 # lit '' Error: could not get a reply.''))]"
proof -
  let ?s = "composing_page (lit '' hi '')"
  have f: "nodes_fresh ?s"
    by (simp add: nodes_fresh_def composing_page_def logged_in_page_def initial_page_def)
  have t: "trim (msg_input_value ?s) = lit ''hi''"
    by (simp add: composing_page_def trim_def lit_def is_white_space_def)
  have a: "activeChatId ?s = Some (lit ''abc'')" "lit ''abc'' \<noteq> []"
    by (simp_all add: composing_page_def lit_def)
  have m: "trim (msg_input_value ?s) \<noteq> []" by (simp add: t) (simp add: lit_def)
  have n: "next_node ?s = 0" "messages_panel ?s = []"
    by (simp_all add: composing_page_def logged_in_page_def initial_page_def)
  have e: "escapeHtml (lit ''hi'') = lit ''hi''"
    by (simp add: escapeHtml_def replaceAll_def lit_def)
  have r1: "\<And>p s1. fst (apiFetch (post_message error_echo_backend) p
         \<lparr>opt_method = Some (lit ''POST''), opt_body = Some (MessageBody (lit ''hi'')),
          opt_headers = None\<rparr> s1) = Some (Reply error_text)"
    by (simp add: apiFetch_cases received_def error_echo_backend_def demo_backend_def)
  have r2: "\<And>p s1. fst (apiFetch (post_message (status_backend 500)) p
         \<lparr>opt_method = Some (lit ''POST''), opt_body = Some (MessageBody (lit ''hi'')),
          opt_headers = None\<rparr> s1) = None"
    by (simp add: apiFetch_cases received_def status_backend_def)
  from sendMessage_thread [OF a m f, of error_echo_backend] r1
  have ok: "messages_panel (sendMessage error_echo_backend ?s)
      = [(0, Message (lit ''user'') (lit ''hi'')),
         (2, Message (lit ''assistant'') (0x26A0 # lit '' Error: could not get a reply.''))]"
    by (auto simp: t n e escapeHtml_error_text)
  from sendMessage_thread [OF a m f, of "status_backend 500"] r2
  have err: "messages_panel (sendMessage (status_backend 500) ?s)
      = [(0, Message (lit ''user'') (lit ''hi'')),
         (2, Message (lit ''assistant'') (0x26A0 # lit '' Error: could not get a reply.''))]"
    by (auto simp: t n e escapeHtml_error_text)
  from r1 r2 ok err show ?thesis by blast
qed

text \<open>
  C5, as amended. After \<^verbatim>\<open>openChat(id)\<close> the location is what \<^verbatim>\<open>pushState\<close> makes of
  \<^verbatim>\<open>/c/id\<close>: for an identifier that is not empty and made of ASCII letters, digits,
  \<^verbatim>\<open>-\<close>, \<^verbatim>\<open>_\<close> and \<^verbatim>\<open>~\<close> only, it is \<^verbatim>\<open>/c/id\<close> and encodes \<open>id\<close>; for any other identifier
  it is what the browser's URL parser gives, and an empty identifier or one with a slash is
  not encoded by it. The active identifier is \<open>id\<close>, and a row
  of the sidebar is marked active exactly when its identifier is \<open>id\<close>: as many rows are
  active as rows carry that identifier, one when the identifier is rendered once, none
  when it is not rendered. The identifier, the location and the highlight are set, as they
  will stay, before the request for the chat is issued.
\<close>

theorem openChat_location_and_highlight:
  "pathname (openChat url_path net chatId s)
     = (if plain_path (lit ''/c/'' @ chatId) then lit ''/c/'' @ chatId
        else url_path (lit ''/c/'' @ chatId))
   \<and> (chatId \<noteq> [] \<and> (\<forall>x \<in> set chatId. url_plain x) \<longrightarrow>
        pathname (openChat url_path net chatId s) = lit ''/c/'' @ chatId
        \<and> encodes_chat (pathname (openChat url_path net chatId s)) chatId)
   \<and> (chatId = [] \<or> 0x2F \<in> set chatId \<longrightarrow>
        \<not> encodes_chat (pathname (openChat url_path net chatId s)) chatId)
   \<and> activeChatId (openChat url_path net chatId s) = Some chatId
   \<and> (\<forall>r \<in> set (chat_list (openChat url_path net chatId s)). is_active r \<longleftrightarrow> row_has_id chatId r)
   \<and> length (filter is_active (chat_list (openChat url_path net chatId s)))
       = length (filter (row_has_id chatId) (chat_list s))
   \<and> activeChatId (openChat_begin url_path chatId s) = Some chatId
   \<and> chat_list (openChat_begin url_path chatId s) = chat_list (openChat url_path net chatId s)
   \<and> pathname (openChat_begin url_path chatId s) = pathname (openChat url_path net chatId s)
   \<and> requests (openChat_begin url_path chatId s) = requests s"
proof -
  have loc: "chatId \<noteq> [] \<and> (\<forall>x \<in> set chatId. url_plain x) \<longrightarrow>
        pathname (openChat url_path net chatId s) = lit ''/c/'' @ chatId
        \<and> encodes_chat (pathname (openChat url_path net chatId s)) chatId"
  proof
    assume h: "chatId \<noteq> [] \<and> (\<forall>x \<in> set chatId. url_plain x)"
    then have "0x2F \<notin> set chatId" using url_plain_not_slash by blast
    with h show "pathname (openChat url_path net chatId s) = lit ''/c/'' @ chatId
        \<and> encodes_chat (pathname (openChat url_path net chatId s)) chatId"
      by (simp add: openChat_frame plain_path_chat encodes_chat_canonical)
  qed
  have rest: "pathname (openChat url_path net chatId s)
     = (if plain_path (lit ''/c/'' @ chatId) then lit ''/c/'' @ chatId
        else url_path (lit ''/c/'' @ chatId))
   \<and> activeChatId (openChat url_path net chatId s) = Some chatId
   \<and> (\<forall>r \<in> set (chat_list (openChat url_path net chatId s)). is_active r \<longleftrightarrow> row_has_id chatId r)
   \<and> length (filter is_active (chat_list (openChat url_path net chatId s)))
       = length (filter (row_has_id chatId) (chat_list s))
   \<and> activeChatId (openChat_begin url_path chatId s) = Some chatId
   \<and> chat_list (openChat_begin url_path chatId s) = chat_list (openChat url_path net chatId s)
   \<and> pathname (openChat_begin url_path chatId s) = pathname (openChat url_path net chatId s)
   \<and> requests (openChat_begin url_path chatId s) = requests s"
    by (simp add: openChat_frame openChat_begin_eq toggle_active_is_active row_has_id_toggle
        comp_def)
  have seg: "chatId = [] \<or> 0x2F \<in> set chatId \<longrightarrow>
        \<not> encodes_chat (pathname (openChat url_path net chatId s)) chatId"
    using encodes_chat_segment by blast
  from loc seg rest show ?thesis by blast
qed

theorem openChat_location_and_highlight_witness:
  "chat_list (openChat as_written demo_backend (lit ''abc'')
       (loadChatList demo_backend (logged_in_page (lit ''/c/''))))
     = [ChatItem (lit ''abc'') True (lit ''New Chat'') (lit ''New Chat'') (lit ''abc'')]
   \<and> pathname (openChat as_written demo_backend (lit ''abc'')
       (loadChatList demo_backend (logged_in_page (lit ''/c/'')))) = lit ''/c/abc''
   \<and> encodes_chat (lit ''/c/abc'') (lit ''abc'')"
proof -
  have p: "lit ''abc'' \<noteq> [] \<and> (\<forall>x \<in> set (lit ''abc''). url_plain x)"
    by (simp add: lit_def url_plain_def)
  have l: "chat_list (loadChatList demo_backend (logged_in_page (lit ''/c/'')))
      = [ChatItem (lit ''abc'') False (lit ''New Chat'') (lit ''New Chat'') (lit ''abc'')]"
    by (simp add: loadChatList_def apiFetch_cases received_def demo_backend_def
        renderChatList_eq chat_row_def logged_in_page_def initial_page_def escapeHtml_def
        replaceAll_def lit_def)
  from p openChat_location_and_highlight [of as_written demo_backend "lit ''abc''"
      "loadChatList demo_backend (logged_in_page (lit ''/c/''))"]
  have a: "pathname (openChat as_written demo_backend (lit ''abc'')
       (loadChatList demo_backend (logged_in_page (lit ''/c/'')))) = lit ''/c/'' @ lit ''abc''"
    and b: "encodes_chat (pathname (openChat as_written demo_backend (lit ''abc'')
       (loadChatList demo_backend (logged_in_page (lit ''/c/''))))) (lit ''abc'')"
    by blast+
  have j: "lit ''/c/'' @ lit ''abc'' = lit ''/c/abc''" by (simp add: lit_def)
  have c: "chat_list (openChat as_written demo_backend (lit ''abc'')
       (loadChatList demo_backend (logged_in_page (lit ''/c/''))))
     = [ChatItem (lit ''abc'') True (lit ''New Chat'') (lit ''New Chat'') (lit ''abc'')]"
    by (simp add: openChat_frame l)
  from a b c j show ?thesis by simp
qed

text \<open>
  C5 as stated fails where the opened identifier has no row: the list of chats could not
  be loaded (status 500, so the sidebar shows the placeholder), the chat \<^verbatim>\<open>abc\<close> of the
  location is then opened and loads successfully, and no row is marked active. It fails
  too for an identifier that is not one segment: after \<^verbatim>\<open>openChat("a/b")\<close> the location
  \<^verbatim>\<open>/c/a/b\<close> does not encode that identifier.
\<close>

theorem openChat_no_row_counterexample:
  "chat_list (loadChatList list_down_backend (logged_in_page (lit ''/c/abc''))) = [EmptyHint]
   \<and> filter is_active (chat_list (openChat as_written list_down_backend (lit ''abc'')
       (loadChatList list_down_backend (logged_in_page (lit ''/c/abc''))))) = []
   \<and> map snd (messages_panel (openChat as_written list_down_backend (lit ''abc'')
       (loadChatList list_down_backend (logged_in_page (lit ''/c/abc'')))))
      = [Message (lit ''user'') (lit ''hi''), Message (lit ''assistant'') (lit ''hello'')]
   \<and> pathname (openChat as_written list_down_backend (lit ''abc'')
       (loadChatList list_down_backend (logged_in_page (lit ''/c/abc'')))) = lit ''/c/abc''
   \<and> plain_path (lit ''/c/a/b'')
   \<and> pathname (openChat as_written demo_backend (lit ''a/b'') (logged_in_page (lit ''/c/'')))
       = lit ''/c/a/b''
   \<and> \<not> encodes_chat (lit ''/c/a/b'') (lit ''a/b'')"
proof -
  have 1: "chat_list (loadChatList list_down_backend (logged_in_page (lit ''/c/abc''))) = [EmptyHint]"
    by (simp add: loadChatList_def apiFetch_cases received_def list_down_backend_def
        demo_backend_def renderChatList_eq)
  have 2: "filter is_active (chat_list (openChat as_written list_down_backend (lit ''abc'')
       (loadChatList list_down_backend (logged_in_page (lit ''/c/abc''))))) = []"
    by (simp add: openChat_frame 1)
  have 3: "map snd (messages_panel (openChat as_written list_down_backend (lit ''abc'')
       (loadChatList list_down_backend (logged_in_page (lit ''/c/abc'')))))
      = [Message (lit ''user'') (lit ''hi''), Message (lit ''assistant'') (lit ''hello'')]"
    by (simp add: openChat_def openChat_render_def case_prod_unfold
        apiFetch_cases received_def list_down_backend_def demo_backend_def
        appendMessage_def fresh_node_def appendChild_def scrollToBottom_def
        escapeHtml_def replaceAll_def lit_def Let_def)
  have pl: "plain_path (lit ''/c/abc'')" "plain_path (lit ''/c/a/b'')"
    by (simp_all add: plain_path_def url_plain_def lit_def)
  have 4: "pathname (openChat as_written list_down_backend (lit ''abc'')
       (loadChatList list_down_backend (logged_in_page (lit ''/c/abc'')))) = lit ''/c/abc''"
    using pl(1) by (simp add: openChat_frame lit_def)
  have 5: "pathname (openChat as_written demo_backend (lit ''a/b'') (logged_in_page (lit ''/c/'')))
       = lit ''/c/a/b''"
    using pl(2) by (simp add: openChat_frame lit_def)
  have 6: "\<not> encodes_chat (lit ''/c/a/b'') (lit ''a/b'')"
    by (simp add: encodes_chat_def lit_def)
  from 1 2 3 4 pl(2) 5 6 show ?thesis by blast
qed

text \<open>
  C3, as amended. A request through the transport adapter that is answered with status
  401 clears local storage and starts the navigation to \<^verbatim>\<open>/\<close>, with that one request and
  no retry; a second request answered with 401 changes nothing but the log of requests.
  A request that is not answered with 401 leaves local storage and the navigation as they
  were. The startup guard shows the not-logged-in overlay and does nothing else when no
  token is stored: storage, navigation and the log of requests stay. When the identity
  check returns no result it shows the overlay after that one request; local storage is
  cleared and the navigation started when the answer was 401, and only then: after any
  other failure both are as they were. Showing the overlay twice is showing it once.
\<close>

theorem unauthenticated_transition:
  "(received endpoint path opts s = Response 401 b \<longrightarrow>
      apiFetch endpoint path opts s =
        (None, s\<lparr>requests := requests s @ [api_request path opts s], localStorage := [],
                  navigation := Some (lit ''/'')\<rparr>))
   \<and> (received endpoint path opts s = Response 401 b
       \<and> received endpointB pathB optsB (snd (apiFetch endpoint path opts s)) = Response 401 bB \<longrightarrow>
      (snd (apiFetch endpointB pathB optsB (snd (apiFetch endpoint path opts s))))
         \<lparr>requests := requests (snd (apiFetch endpoint path opts s))\<rparr>
       = snd (apiFetch endpoint path opts s))
   \<and> (\<not> truthy (getItem (lit ''fb_id_token'') s) \<longrightarrow>
        onDOMContentLoaded url_path net s = showNotLoggedIn s)
   \<and> (truthy (getItem (lit ''fb_id_token'') s)
       \<and> fst (apiFetch (auth_me net) (lit ''/api/auth/me'') no_opts s) = None \<longrightarrow>
        onDOMContentLoaded url_path net s
          = showNotLoggedIn (snd (apiFetch (auth_me net) (lit ''/api/auth/me'') no_opts s))
        \<and> auth_overlay_display (onDOMContentLoaded url_path net s) = lit ''flex''
        \<and> requests (onDOMContentLoaded url_path net s)
            = requests s @ [api_request (lit ''/api/auth/me'') no_opts s])
   \<and> (truthy (getItem (lit ''fb_id_token'') s)
       \<and> received (auth_me net) (lit ''/api/auth/me'') no_opts s = Response 401 bC \<longrightarrow>
        localStorage (onDOMContentLoaded url_path net s) = []
        \<and> navigation (onDOMContentLoaded url_path net s) = Some (lit ''/'')
        \<and> auth_overlay_display (onDOMContentLoaded url_path net s) = lit ''flex'')
   \<and> showNotLoggedIn (showNotLoggedIn s) = showNotLoggedIn s
   \<and> ((\<forall>x. received endpoint path opts s \<noteq> Response 401 x) \<longrightarrow>
        localStorage (snd (apiFetch endpoint path opts s)) = localStorage s
        \<and> navigation (snd (apiFetch endpoint path opts s)) = navigation s)
   \<and> (\<not> truthy (getItem (lit ''fb_id_token'') s) \<longrightarrow>
        localStorage (onDOMContentLoaded url_path net s) = localStorage s
        \<and> navigation (onDOMContentLoaded url_path net s) = navigation s
        \<and> requests (onDOMContentLoaded url_path net s) = requests s)
   \<and> (truthy (getItem (lit ''fb_id_token'') s)
       \<and> fst (apiFetch (auth_me net) (lit ''/api/auth/me'') no_opts s) = None
       \<and> (\<forall>x. received (auth_me net) (lit ''/api/auth/me'') no_opts s \<noteq> Response 401 x) \<longrightarrow>
        localStorage (onDOMContentLoaded url_path net s) = localStorage s
        \<and> navigation (onDOMContentLoaded url_path net s) = navigation s)"
proof -
  have 1: "received endpoint path opts s = Response 401 b \<longrightarrow>
      apiFetch endpoint path opts s =
        (None, s\<lparr>requests := requests s @ [api_request path opts s], localStorage := [],
                  navigation := Some (lit ''/'')\<rparr>)"
    by (simp add: apiFetch_401)
  have 2: "received endpoint path opts s = Response 401 b
       \<and> received endpointB pathB optsB (snd (apiFetch endpoint path opts s)) = Response 401 bB \<longrightarrow>
      (snd (apiFetch endpointB pathB optsB (snd (apiFetch endpoint path opts s))))
         \<lparr>requests := requests (snd (apiFetch endpoint path opts s))\<rparr>
       = snd (apiFetch endpoint path opts s)"
  proof
    assume h: "received endpoint path opts s = Response 401 b
       \<and> received endpointB pathB optsB (snd (apiFetch endpoint path opts s)) = Response 401 bB"
    let ?s1 = "snd (apiFetch endpoint path opts s)"
    have s1: "?s1 = s\<lparr>requests := requests s @ [api_request path opts s], localStorage := [],
                  navigation := Some (lit ''/'')\<rparr>"
      using h by (simp add: apiFetch_401)
    have "snd (apiFetch endpointB pathB optsB ?s1) =
        ?s1\<lparr>requests := requests ?s1 @ [api_request pathB optsB ?s1], localStorage := [],
                  navigation := Some (lit ''/'')\<rparr>"
      using h apiFetch_401 [of endpointB pathB optsB ?s1 bB] by simp
    then show "(snd (apiFetch endpointB pathB optsB ?s1))\<lparr>requests := requests ?s1\<rparr> = ?s1"
      by (simp add: s1)
  qed
  have 3: "\<not> truthy (getItem (lit ''fb_id_token'') s) \<longrightarrow>
        onDOMContentLoaded url_path net s = showNotLoggedIn s"
    by (simp add: onDOMContentLoaded_no_token)
  have 4: "truthy (getItem (lit ''fb_id_token'') s)
       \<and> fst (apiFetch (auth_me net) (lit ''/api/auth/me'') no_opts s) = None \<longrightarrow>
        onDOMContentLoaded url_path net s
          = showNotLoggedIn (snd (apiFetch (auth_me net) (lit ''/api/auth/me'') no_opts s))
        \<and> auth_overlay_display (onDOMContentLoaded url_path net s) = lit ''flex''
        \<and> requests (onDOMContentLoaded url_path net s)
            = requests s @ [api_request (lit ''/api/auth/me'') no_opts s]"
    by (simp add: onDOMContentLoaded_no_identity showNotLoggedIn_def apiFetch_frame)
  have 5: "truthy (getItem (lit ''fb_id_token'') s)
       \<and> received (auth_me net) (lit ''/api/auth/me'') no_opts s = Response 401 bC \<longrightarrow>
        localStorage (onDOMContentLoaded url_path net s) = []
        \<and> navigation (onDOMContentLoaded url_path net s) = Some (lit ''/'')
        \<and> auth_overlay_display (onDOMContentLoaded url_path net s) = lit ''flex''"
  proof
    assume h: "truthy (getItem (lit ''fb_id_token'') s)
       \<and> received (auth_me net) (lit ''/api/auth/me'') no_opts s = Response 401 bC"
    then have f: "apiFetch (auth_me net) (lit ''/api/auth/me'') no_opts s =
        (None, s\<lparr>requests := requests s @ [api_request (lit ''/api/auth/me'') no_opts s],
                  localStorage := [], navigation := Some (lit ''/'')\<rparr>)"
      by (simp add: apiFetch_401)
    with h show "localStorage (onDOMContentLoaded url_path net s) = []
        \<and> navigation (onDOMContentLoaded url_path net s) = Some (lit ''/'')
        \<and> auth_overlay_display (onDOMContentLoaded url_path net s) = lit ''flex''"
      by (simp add: onDOMContentLoaded_no_identity showNotLoggedIn_def)
  qed
  have 6: "showNotLoggedIn (showNotLoggedIn s) = showNotLoggedIn s"
    by (simp add: showNotLoggedIn_def)
  have 7: "(\<forall>x. received endpoint path opts s \<noteq> Response 401 x) \<longrightarrow>
        localStorage (snd (apiFetch endpoint path opts s)) = localStorage s
        \<and> navigation (snd (apiFetch endpoint path opts s)) = navigation s"
    by (simp add: apiFetch_not_401)
  have 8: "\<not> truthy (getItem (lit ''fb_id_token'') s) \<longrightarrow>
        localStorage (onDOMContentLoaded url_path net s) = localStorage s
        \<and> navigation (onDOMContentLoaded url_path net s) = navigation s
        \<and> requests (onDOMContentLoaded url_path net s) = requests s"
    by (simp add: onDOMContentLoaded_no_token showNotLoggedIn_def)
  have 9: "truthy (getItem (lit ''fb_id_token'') s)
       \<and> fst (apiFetch (auth_me net) (lit ''/api/auth/me'') no_opts s) = None
       \<and> (\<forall>x. received (auth_me net) (lit ''/api/auth/me'') no_opts s \<noteq> Response 401 x) \<longrightarrow>
        localStorage (onDOMContentLoaded url_path net s) = localStorage s
        \<and> navigation (onDOMContentLoaded url_path net s) = navigation s"
    by (simp add: onDOMContentLoaded_no_identity showNotLoggedIn_def apiFetch_not_401)
  from 1 2 3 4 5 6 7 8 9 show ?thesis by blast
qed

theorem unauthenticated_transition_witness:
  "received (auth_me (status_backend 401)) (lit ''/api/auth/me'') no_opts (logged_in_page (lit ''/c/''))
     = Response 401 JsonNull
   \<and> truthy (getItem (lit ''fb_id_token'') (logged_in_page (lit ''/c/'')))
   \<and> localStorage (onDOMContentLoaded as_written (status_backend 401) (logged_in_page (lit ''/c/''))) = []
   \<and> navigation (onDOMContentLoaded as_written (status_backend 401) (logged_in_page (lit ''/c/''))) = Some (lit ''/'')
   \<and> auth_overlay_display (onDOMContentLoaded as_written (status_backend 401) (logged_in_page (lit ''/c/''))) = lit ''flex''
   \<and> \<not> truthy (getItem (lit ''fb_id_token'') (initial_page [] (lit ''/c/'')))
   \<and> onDOMContentLoaded as_written (status_backend 401) (initial_page [] (lit ''/c/''))
       = showNotLoggedIn (initial_page [] (lit ''/c/''))"
proof -
  have r: "received (auth_me (status_backend 401)) (lit ''/api/auth/me'') no_opts (logged_in_page (lit ''/c/''))
     = Response 401 JsonNull"
    by (simp add: received_def status_backend_def)
  have t: "truthy (getItem (lit ''fb_id_token'') (logged_in_page (lit ''/c/'')))"
    by (simp add: truthy_def getItem_def logged_in_page_def initial_page_def lit_def)
  have n: "\<not> truthy (getItem (lit ''fb_id_token'') (initial_page [] (lit ''/c/'')))"
    by (simp add: truthy_def getItem_def initial_page_def)
  from r t unauthenticated_transition [where s = "logged_in_page (lit ''/c/'')"
        and net = "status_backend 401" and bC = JsonNull and url_path = as_written
        and endpoint = "auth_me (status_backend 401)" and path = "lit ''/api/auth/me''"
        and opts = no_opts and b = "JsonNull :: user body"
        and endpointB = "auth_me (status_backend 401)" and pathB = "lit ''/api/auth/me''"
        and optsB = no_opts and bB = "JsonNull :: user body"]
  have a: "localStorage (onDOMContentLoaded as_written (status_backend 401) (logged_in_page (lit ''/c/''))) = []
   \<and> navigation (onDOMContentLoaded as_written (status_backend 401) (logged_in_page (lit ''/c/''))) = Some (lit ''/'')
   \<and> auth_overlay_display (onDOMContentLoaded as_written (status_backend 401) (logged_in_page (lit ''/c/''))) = lit ''flex''"
    by blast
  from n unauthenticated_transition [where s = "initial_page [] (lit ''/c/'')"
        and net = "status_backend 401" and bC = JsonNull and url_path = as_written
        and endpoint = "auth_me (status_backend 401)" and path = "lit ''/api/auth/me''"
        and opts = no_opts and b = "JsonNull :: user body"
        and endpointB = "auth_me (status_backend 401)" and pathB = "lit ''/api/auth/me''"
        and optsB = no_opts and bB = "JsonNull :: user body"]
  have b: "onDOMContentLoaded as_written (status_backend 401) (initial_page [] (lit ''/c/''))
       = showNotLoggedIn (initial_page [] (lit ''/c/''))"
    by blast
  from r t n a b show ?thesis by blast
qed

text \<open>
  C3 as stated fails for the startup guard when the identity check fails with another
  status than 401: the overlay is shown, the token stays in local storage and no
  navigation is started.
\<close>

theorem startup_guard_keeps_credentials_counterexample:
  "truthy (getItem (lit ''fb_id_token'') (logged_in_page (lit ''/c/'')))
   \<and> fst (apiFetch (auth_me (status_backend 500)) (lit ''/api/auth/me'') no_opts
        (logged_in_page (lit ''/c/''))) = None
   \<and> localStorage (onDOMContentLoaded as_written (status_backend 500) (logged_in_page (lit ''/c/'')))
       = [(lit ''fb_id_token'', lit ''tok'')]
   \<and> navigation (onDOMContentLoaded as_written (status_backend 500) (logged_in_page (lit ''/c/''))) = None
   \<and> auth_overlay_display (onDOMContentLoaded as_written (status_backend 500) (logged_in_page (lit ''/c/'')))
       = lit ''flex''"
  by (simp add: onDOMContentLoaded_def apiFetch_cases received_def status_backend_def
      showNotLoggedIn_def truthy_def getItem_def logged_in_page_def initial_page_def Let_def lit_def)

text \<open>
  C8, as amended. Once the startup guard has passed (a token is stored and the identity
  check returned a user) and the list has been loaded: if the segments of the location,
  empty ones dropped, are exactly the chat root and one identifier, the handler goes on
  as \<^verbatim>\<open>openChat\<close> of that identifier; if they are not, the handler ends there and the active
  identifier is untouched. From a page with no active chat, the active identifier at the
  end is an identifier if and only if the location encodes it. When the guard does not
  pass (no token, or no result of the identity check), the handler is the overlay and
  nothing else: the active identifier, the location, the thread and the sidebar are as
  they were, and no request is issued but the identity check. An encoded identifier is a
  segment, not empty and without a slash, and every such segment is encoded by the chat
  root followed by it. The chat root alone encodes no identifier.
\<close>

theorem startup_routing:
  "(truthy (getItem (lit ''fb_id_token'') s)
     \<and> apiFetch (auth_me net) (lit ''/api/auth/me'') no_opts s = (Some u, s1)
     \<and> s4 = loadChatList net (s1\<lparr>user_email_text := email_or_uid u, controls_wired := True\<rparr>) \<longrightarrow>
       (encodes_chat (pathname s) ident \<longrightarrow>
          onDOMContentLoaded url_path net s = openChat url_path net ident s4)
     \<and> ((\<forall>i. \<not> encodes_chat (pathname s) i) \<longrightarrow> onDOMContentLoaded url_path net s = s4)
     \<and> activeChatId s4 = activeChatId s
     \<and> (activeChatId s = None \<longrightarrow>
          (activeChatId (onDOMContentLoaded url_path net s) = Some ident
           \<longleftrightarrow> encodes_chat (pathname s) ident)))
   \<and> (\<not> truthy (getItem (lit ''fb_id_token'') s) \<longrightarrow>
        onDOMContentLoaded url_path net s = showNotLoggedIn s
        \<and> requests (onDOMContentLoaded url_path net s) = requests s)
   \<and> (truthy (getItem (lit ''fb_id_token'') s)
       \<and> fst (apiFetch (auth_me net) (lit ''/api/auth/me'') no_opts s) = None \<longrightarrow>
        onDOMContentLoaded url_path net s
          = showNotLoggedIn (snd (apiFetch (auth_me net) (lit ''/api/auth/me'') no_opts s))
        \<and> requests (onDOMContentLoaded url_path net s)
            = requests s @ [api_request (lit ''/api/auth/me'') no_opts s])
   \<and> (\<not> truthy (getItem (lit ''fb_id_token'') s)
        \<or> fst (apiFetch (auth_me net) (lit ''/api/auth/me'') no_opts s) = None \<longrightarrow>
        activeChatId (onDOMContentLoaded url_path net s) = activeChatId s
        \<and> pathname (onDOMContentLoaded url_path net s) = pathname s
        \<and> messages_panel (onDOMContentLoaded url_path net s) = messages_panel s
        \<and> chat_list (onDOMContentLoaded url_path net s) = chat_list s)
   \<and> (encodes_chat (pathname s) ident \<longrightarrow> ident \<noteq> [] \<and> 0x2F \<notin> set ident)
   \<and> (ident \<noteq> [] \<and> 0x2F \<notin> set ident \<longrightarrow> encodes_chat (lit ''/c/'' @ ident) ident)
   \<and> \<not> encodes_chat (lit ''/c/'') ident \<and> \<not> encodes_chat (lit ''/c'') ident"
proof -
  have pass: "truthy (getItem (lit ''fb_id_token'') s)
     \<and> apiFetch (auth_me net) (lit ''/api/auth/me'') no_opts s = (Some u, s1)
     \<and> s4 = loadChatList net (s1\<lparr>user_email_text := email_or_uid u, controls_wired := True\<rparr>) \<longrightarrow>
       (encodes_chat (pathname s) ident \<longrightarrow>
          onDOMContentLoaded url_path net s = openChat url_path net ident s4)
     \<and> ((\<forall>i. \<not> encodes_chat (pathname s) i) \<longrightarrow> onDOMContentLoaded url_path net s = s4)
     \<and> activeChatId s4 = activeChatId s
     \<and> (activeChatId s = None \<longrightarrow>
          (activeChatId (onDOMContentLoaded url_path net s) = Some ident
           \<longleftrightarrow> encodes_chat (pathname s) ident))"
  proof
    assume h: "truthy (getItem (lit ''fb_id_token'') s)
     \<and> apiFetch (auth_me net) (lit ''/api/auth/me'') no_opts s = (Some u, s1)
     \<and> s4 = loadChatList net (s1\<lparr>user_email_text := email_or_uid u, controls_wired := True\<rparr>)"
    then have t: "truthy (getItem (lit ''fb_id_token'') s)"
      and f: "apiFetch (auth_me net) (lit ''/api/auth/me'') no_opts s = (Some u, s1)"
      and l: "s4 = loadChatList net (s1\<lparr>user_email_text := email_or_uid u, controls_wired := True\<rparr>)"
      by simp_all
    note r = onDOMContentLoaded_routing [OF t f l]
    have 1: "encodes_chat (pathname s) ident \<longrightarrow>
          onDOMContentLoaded url_path net s = openChat url_path net ident s4"
      using r(1) by blast
    have 2: "(\<forall>i. \<not> encodes_chat (pathname s) i) \<longrightarrow> onDOMContentLoaded url_path net s = s4"
      using r(2) by blast
    have 3: "activeChatId s4 = activeChatId s" by (rule r(3))
    have 4: "activeChatId s = None \<longrightarrow>
          (activeChatId (onDOMContentLoaded url_path net s) = Some ident
           \<longleftrightarrow> encodes_chat (pathname s) ident)"
    proof
      assume none: "activeChatId s = None"
      show "activeChatId (onDOMContentLoaded url_path net s) = Some ident
           \<longleftrightarrow> encodes_chat (pathname s) ident"
      proof (cases "\<exists>i. encodes_chat (pathname s) i")
        case True
        then obtain i where i: "encodes_chat (pathname s) i" by blast
        then have "onDOMContentLoaded url_path net s = openChat url_path net i s4"
          using onDOMContentLoaded_routing(1) [OF t f l] by blast
        then have "activeChatId (onDOMContentLoaded url_path net s) = Some i"
          by (simp add: openChat_frame)
        with i show ?thesis using encodes_chat_unique by auto
      next
        case False
        with 2 3 none show ?thesis by auto
      qed
    qed
    from 1 2 3 4 show "(encodes_chat (pathname s) ident \<longrightarrow>
          onDOMContentLoaded url_path net s = openChat url_path net ident s4)
     \<and> ((\<forall>i. \<not> encodes_chat (pathname s) i) \<longrightarrow> onDOMContentLoaded url_path net s = s4)
     \<and> activeChatId s4 = activeChatId s
     \<and> (activeChatId s = None \<longrightarrow>
          (activeChatId (onDOMContentLoaded url_path net s) = Some ident
           \<longleftrightarrow> encodes_chat (pathname s) ident))"
      by blast
  qed
  have nt: "\<not> truthy (getItem (lit ''fb_id_token'') s) \<longrightarrow>
        onDOMContentLoaded url_path net s = showNotLoggedIn s
        \<and> requests (onDOMContentLoaded url_path net s) = requests s"
    by (simp add: onDOMContentLoaded_no_token showNotLoggedIn_def)
  have ni: "truthy (getItem (lit ''fb_id_token'') s)
       \<and> fst (apiFetch (auth_me net) (lit ''/api/auth/me'') no_opts s) = None \<longrightarrow>
        onDOMContentLoaded url_path net s
          = showNotLoggedIn (snd (apiFetch (auth_me net) (lit ''/api/auth/me'') no_opts s))
        \<and> requests (onDOMContentLoaded url_path net s)
            = requests s @ [api_request (lit ''/api/auth/me'') no_opts s]"
    by (simp add: onDOMContentLoaded_no_identity showNotLoggedIn_def apiFetch_frame)
  have np: "\<not> truthy (getItem (lit ''fb_id_token'') s)
        \<or> fst (apiFetch (auth_me net) (lit ''/api/auth/me'') no_opts s) = None \<longrightarrow>
        activeChatId (onDOMContentLoaded url_path net s) = activeChatId s
        \<and> pathname (onDOMContentLoaded url_path net s) = pathname s
        \<and> messages_panel (onDOMContentLoaded url_path net s) = messages_panel s
        \<and> chat_list (onDOMContentLoaded url_path net s) = chat_list s"
    using onDOMContentLoaded_not_passed [of s net url_path] by blast
  have 5: "encodes_chat (pathname s) ident \<longrightarrow> ident \<noteq> [] \<and> 0x2F \<notin> set ident"
    using encodes_chat_segment by blast
  have 6: "ident \<noteq> [] \<and> 0x2F \<notin> set ident \<longrightarrow> encodes_chat (lit ''/c/'' @ ident) ident"
    using encodes_chat_canonical by blast
  have 7: "\<not> encodes_chat (lit ''/c/'') ident" "\<not> encodes_chat (lit ''/c'') ident"
    by (simp_all add: encodes_chat_def lit_def)
  from pass nt ni np 5 6 7 show ?thesis by blast
qed

theorem startup_routing_witness:
  "truthy (getItem (lit ''fb_id_token'') (logged_in_page (lit ''/c/abc'')))
   \<and> fst (apiFetch (auth_me demo_backend) (lit ''/api/auth/me'') no_opts (logged_in_page (lit ''/c/abc'')))
       = Some (User (Some (lit ''a@b.c'')) (Some (lit ''u1'')))
   \<and> encodes_chat (lit ''/c/abc'') (lit ''abc'')
   \<and> activeChatId (onDOMContentLoaded as_written demo_backend (logged_in_page (lit ''/c/abc'')))
       = Some (lit ''abc'')
   \<and> activeChatId (onDOMContentLoaded as_written demo_backend (logged_in_page (lit ''/c/''))) = None
   \<and> fst (apiFetch (auth_me (status_backend 500)) (lit ''/api/auth/me'') no_opts
        (logged_in_page (lit ''/c/abc''))) = None
   \<and> activeChatId (onDOMContentLoaded as_written (status_backend 500) (logged_in_page (lit ''/c/abc'')))
       = None"
proof -
  have t: "\<And>p. truthy (getItem (lit ''fb_id_token'') (logged_in_page p))"
    by (simp add: truthy_def getItem_def logged_in_page_def initial_page_def lit_def)
  have f: "\<And>p. fst (apiFetch (auth_me demo_backend) (lit ''/api/auth/me'') no_opts (logged_in_page p))
       = Some (User (Some (lit ''a@b.c'')) (Some (lit ''u1'')))"
    by (simp add: apiFetch_cases received_def demo_backend_def)
  have g: "\<And>p. fst (apiFetch (auth_me (status_backend 500)) (lit ''/api/auth/me'') no_opts
        (logged_in_page p)) = None"
    by (simp add: apiFetch_cases received_def status_backend_def)
  have e: "encodes_chat (lit ''/c/abc'') (lit ''abc'')"
    by (simp add: encodes_chat_def lit_def)
  have p: "\<And>q. pathname (logged_in_page q) = q" "\<And>q. activeChatId (logged_in_page q) = None"
    by (simp_all add: logged_in_page_def initial_page_def)
  have ne: "\<And>i. \<not> encodes_chat (lit ''/c/'') i" by (simp add: encodes_chat_def lit_def)
  have fp: "\<And>q. apiFetch (auth_me demo_backend) (lit ''/api/auth/me'') no_opts (logged_in_page q)
       = (Some (User (Some (lit ''a@b.c'')) (Some (lit ''u1''))),
          snd (apiFetch (auth_me demo_backend) (lit ''/api/auth/me'') no_opts (logged_in_page q)))"
    by (simp add: prod_eq_iff f)
  have r: "\<And>q i. activeChatId (onDOMContentLoaded as_written demo_backend (logged_in_page q)) = Some i
       \<longleftrightarrow> encodes_chat q i"
    using t fp startup_routing [where url_path = as_written and net = demo_backend
        and s = "logged_in_page _"] unfolding p by blast
  from e r have a: "activeChatId (onDOMContentLoaded as_written demo_backend (logged_in_page (lit ''/c/abc'')))
       = Some (lit ''abc'')"
    by blast
  from ne r have b: "activeChatId (onDOMContentLoaded as_written demo_backend (logged_in_page (lit ''/c/''))) = None"
    by (cases "activeChatId (onDOMContentLoaded as_written demo_backend (logged_in_page (lit ''/c/'')))") auto
  have c: "activeChatId (onDOMContentLoaded as_written (status_backend 500) (logged_in_page (lit ''/c/abc'')))
       = None"
    using g [of "lit ''/c/abc''"] startup_routing [where url_path = as_written
        and net = "status_backend 500" and s = "logged_in_page (lit ''/c/abc'')"]
    unfolding p by blast
  from t f e a b g c show ?thesis by blast
qed

text \<open>
  C8 as stated fails when no token is stored: the location encodes the chat \<^verbatim>\<open>abc\<close>, and
  the handler stops at the guard, with no chat opened and no request issued.
\<close>

theorem startup_guard_blocks_routing_counterexample:
  "encodes_chat (lit ''/c/abc'') (lit ''abc'')
   \<and> activeChatId (onDOMContentLoaded as_written demo_backend (initial_page [] (lit ''/c/abc''))) = None
   \<and> requests (onDOMContentLoaded as_written demo_backend (initial_page [] (lit ''/c/abc''))) = []
   \<and> messages_panel (onDOMContentLoaded as_written demo_backend (initial_page [] (lit ''/c/abc''))) = []"
  by (simp add: onDOMContentLoaded_def showNotLoggedIn_def truthy_def getItem_def
      initial_page_def encodes_chat_def lit_def Let_def)

end
